theory Spec2Isabelle
  imports Main "HOL-Library.Word"
begin

unbundle bit_operations_syntax

section \<open>The Vulkan host display of the emulator front-end\<close>

text \<open>
  A shallow embedding of \<^verbatim>\<open>src/frontend-common/vulkan_host_display.cpp\<close>.

  The class drives collaborators that live outside the file: the Vulkan driver, the
  global Vulkan context, the swap chain class, the shader cache, the post-processing
  chain parser and the \<^verbatim>\<open>HostDisplay\<close> base class. Their code is not modelled. What a
  collaborator answers (a \<^verbatim>\<open>VkResult\<close>, a handle, a success flag, the object it hands
  back) is an argument of the embedded function, so every answer the driver can give is
  covered; what the display asks of a collaborator is appended, in program order, to the
  field \<open>calls\<close> of the display state.

  The member functions that talk to the GPU dereference the global context
  \<^verbatim>\<open>g_vulkan_context\<close> without a check; the embedding describes the display while that
  context exists. The owned swap chain \<^verbatim>\<open>m_swap_chain\<close> is a nullable pointer and is
  modelled as an option; dereferencing it while null is the error \<open>NullPointer\<close>. A
  failed \<^verbatim>\<open>Panic\<close> or \<^verbatim>\<open>Assert\<close> ends the run with an error value.
\<close>

subsection \<open>Scalar types, handles and Vulkan enumerations\<close>

type_synonym u32 = "32 word"

text \<open>A signed 32-bit value is a 32-bit word read with \<open>sint\<close>.\<close>

type_synonym s32 = "32 word"

text \<open>A Vulkan handle or a raw pointer; \<open>0\<close> is \<^verbatim>\<open>VK_NULL_HANDLE\<close> / \<^verbatim>\<open>nullptr\<close>.\<close>

type_synonym handle = nat

definition VK_NULL_HANDLE :: handle where
  "VK_NULL_HANDLE = 0"

text \<open>The result codes \<^verbatim>\<open>vkAcquireNextImageKHR\<close> and \<^verbatim>\<open>vmaCreateBuffer\<close> can give.\<close>

datatype VkResult =
    VK_SUCCESS
  | VK_NOT_READY
  | VK_TIMEOUT
  | VK_SUBOPTIMAL_KHR
  | VK_ERROR_OUT_OF_HOST_MEMORY
  | VK_ERROR_OUT_OF_DEVICE_MEMORY
  | VK_ERROR_DEVICE_LOST
  | VK_ERROR_OUT_OF_DATE_KHR
  | VK_ERROR_SURFACE_LOST_KHR
  | VK_ERROR_FULL_SCREEN_EXCLUSIVE_MODE_LOST_EXT
  | VK_ERROR_UNKNOWN

text \<open>
  The swap-chain formats \<^verbatim>\<open>RenderScreenshot\<close> distinguishes, and three it does not handle.
\<close>

datatype VkFormat =
    VK_FORMAT_UNDEFINED
  | VK_FORMAT_R8G8B8A8_UNORM
  | VK_FORMAT_R8G8B8A8_SRGB
  | VK_FORMAT_B8G8R8A8_UNORM
  | VK_FORMAT_B8G8R8A8_SRGB
  | VK_FORMAT_A1R5G5B5_UNORM_PACK16
  | VK_FORMAT_R5G6B5_UNORM_PACK16
  | VK_FORMAT_A2B10G10R10_UNORM_PACK32
  | VK_FORMAT_R16G16B16A16_SFLOAT

datatype GPUTexture_Format = Format_Unknown | RGBA8 | BGRA8 | RGB565 | RGBA5551

datatype VkImageLayout =
    VK_IMAGE_LAYOUT_UNDEFINED
  | VK_IMAGE_LAYOUT_COLOR_ATTACHMENT_OPTIMAL
  | VK_IMAGE_LAYOUT_SHADER_READ_ONLY_OPTIMAL
  | VK_IMAGE_LAYOUT_TRANSFER_SRC_OPTIMAL
  | VK_IMAGE_LAYOUT_PRESENT_SRC_KHR

text \<open>Bits of \<^verbatim>\<open>VkMemoryPropertyFlags\<close> and the driver id, as the Vulkan headers number them.\<close>

definition VK_MEMORY_PROPERTY_HOST_COHERENT_BIT :: u32 where
  "VK_MEMORY_PROPERTY_HOST_COHERENT_BIT = 0x4"

definition VK_MEMORY_PROPERTY_HOST_CACHED_BIT :: u32 where
  "VK_MEMORY_PROPERTY_HOST_CACHED_BIT = 0x8"

definition VK_DRIVER_ID_QUALCOMM_PROPRIETARY :: u32 where
  "VK_DRIVER_ID_QUALCOMM_PROPRIETARY = 8"

subsection \<open>Window information and the swap chain\<close>

datatype WindowInfo_Type = Surfaceless | Win32 | X11 | Wayland | MacOS | Android | Display

record WindowInfo =
  type :: WindowInfo_Type
  window_handle :: handle
  surface_width :: u32
  surface_height :: u32

text \<open>
  Modelled from the spec: the struct \<^verbatim>\<open>WindowInfo\<close> is declared outside the file. Its
  value-initialised form \<^verbatim>\<open>{}\<close> and \<^verbatim>\<open>SetSurfaceless()\<close> describe a window with no
  surface: the type is \<^verbatim>\<open>Surfaceless\<close>, there is no handle and no size.
\<close>

definition WindowInfo_default :: WindowInfo where
  "WindowInfo_default =
     \<lparr>type = Surfaceless, window_handle = 0, surface_width = 0, surface_height = 0\<rparr>"


text \<open>
  What the display reads from a \<^verbatim>\<open>Vulkan::SwapChain\<close>: \<^verbatim>\<open>GetWindowInfo()\<close>,
  \<^verbatim>\<open>GetTextureFormat()\<close>, \<^verbatim>\<open>GetWidth()\<close>, \<^verbatim>\<open>GetHeight()\<close>,
  \<^verbatim>\<open>GetCurrentFramebuffer()\<close> and \<^verbatim>\<open>IsVSyncEnabled()\<close>.
\<close>

record SwapChain =
  GetWindowInfo :: WindowInfo
  GetTextureFormat :: VkFormat
  GetWidth :: u32
  GetHeight :: u32
  GetCurrentFramebuffer :: handle
  IsVSyncEnabled :: bool

subsection \<open>Textures, post-processing stages and the calls the display makes\<close>

text \<open>The texture objects the display passes around by pointer.\<close>

datatype tex_ref =
    display_texture
  | cursor_texture
  | swap_chain_texture
  | screenshot_texture
  | post_processing_input_texture
  | stage_output_texture nat

record Texture =
  tex_width :: u32
  tex_height :: u32

record PostProcessingStage =
  pipeline :: handle
  output_framebuffer :: handle
  output_texture :: Texture
  uniforms_size :: u32

text \<open>What the display reads from a \<^verbatim>\<open>FrontendCommon::PostProcessingShader\<close>.\<close>

record PostProcessingShader =
  GetName :: string
  UsePushConstants :: bool
  GetUniformsSize :: u32

text \<open>The call sites of \<^verbatim>\<open>AllocateDescriptorSet\<close>.\<close>

datatype ds_site = display_ds | cursor_ds | stage_ds nat

datatype call =
    WaitForGPUIdle
  | WaitForPresentComplete
  | ExecuteCommandBuffer bool
  | SubmitCommandBuffer bool
  | MoveToNextCommandBuffer
  | AcquireNextImage
  | ResizeSwapChain s32 s32
  | RecreateSurface WindowInfo
  | CreateVulkanSurface WindowInfo
  | SwapChain_Create WindowInfo handle
  | DestroyVulkanSurface handle
  | Context_Create WindowInfo
  | ShaderCache_Create
  | vmaCreateBuffer u32 u32
  | vmaDestroyBuffer handle handle
  | vmaInvalidateAllocation handle u32
  | vkCmdCopyImageToBuffer tex_ref handle
  | ImGui_Render
  | ImGui_RenderDrawData
  | OverrideImageLayout tex_ref VkImageLayout
  | TransitionToLayout tex_ref VkImageLayout
  | Texture_Create tex_ref u32 u32 VkFormat
  | Texture_Destroy tex_ref
  | CreateFramebuffer tex_ref
  | DeferFramebufferDestruction handle
  | DeferPipelineDestruction handle
  | vkDestroyFramebuffer handle
  | vkCmdBeginRenderPass handle u32 u32
  | vkCmdEndRenderPass
  | AllocateDescriptorSet ds_site
  | AddCombinedImageSamplerDescriptorWrite tex_ref
  | vkCmdPushConstants u32
  | ReserveMemory u32
  | CommitMemory u32
  | vkCmdBindPipeline handle
  | SetViewportAndScissor s32 s32 s32 s32
  | vkCmdDraw
  | PostProcessingChain_CreateFromString string
  | GetVertexShader nat
  | GetFragmentShader nat
  | vkDestroyShaderModule handle
  | GraphicsPipelineBuilder_Create nat
  | StreamBuffer_Create u32
  | Timer_Reset

datatype error =
    Panic string
  | AssertionFailed
  | NullPointer
  | OutOfRange

subsection \<open>The state of the display\<close>

record VulkanHostDisplay =
  m_window_info :: WindowInfo
  m_swap_chain :: "SwapChain option"
  m_is_adreno :: bool
  m_readback_staging_buffer :: handle
  m_readback_staging_allocation :: handle
  m_readback_staging_buffer_map :: handle
  m_readback_staging_buffer_size :: u32
  m_display_pipeline :: handle
  m_cursor_pipeline :: handle
  m_display_texture :: handle
  m_cursor_texture :: handle
  m_post_processing_chain :: "PostProcessingShader list"
  m_post_processing_stages :: "PostProcessingStage list"
  m_post_processing_input_texture :: Texture
  m_post_processing_input_framebuffer :: handle
  m_post_processing_ubo_size :: u32
  calls :: "call list"

text \<open>
  A function that can stop in an error gives back \<open>Inl\<close> of the error and the state
  it stopped in, or \<open>Inr\<close> of what it returns.
\<close>

type_synonym 'a result = "(error \<times> VulkanHostDisplay) + 'a"

definition do_call :: "call \<Rightarrow> VulkanHostDisplay \<Rightarrow> VulkanHostDisplay" where
  "do_call c s = s\<lparr>calls := calls s @ [c]\<rparr>"

definition do_calls :: "call list \<Rightarrow> VulkanHostDisplay \<Rightarrow> VulkanHostDisplay" where
  "do_calls cs s = s\<lparr>calls := calls s @ cs\<rparr>"

text \<open>
  A display as the default member initialisers leave it: no swap chain, no staging
  buffer, no post-processing chain, nothing asked of the driver yet.
\<close>

definition new_display :: VulkanHostDisplay where
  "new_display =
     \<lparr>m_window_info = WindowInfo_default, m_swap_chain = None, m_is_adreno = False,
      m_readback_staging_buffer = 0, m_readback_staging_allocation = 0,
      m_readback_staging_buffer_map = 0, m_readback_staging_buffer_size = 0,
      m_display_pipeline = 0, m_cursor_pipeline = 0, m_display_texture = 0,
      m_cursor_texture = 0, m_post_processing_chain = [], m_post_processing_stages = [],
      m_post_processing_input_texture = \<lparr>tex_width = 0, tex_height = 0\<rparr>,
      m_post_processing_input_framebuffer = 0, m_post_processing_ubo_size = 0,
      calls = []\<rparr>"

subsection \<open>Fullscreen queries\<close>

definition SupportsFullscreen :: "VulkanHostDisplay \<Rightarrow> bool" where
  "SupportsFullscreen s = False"

definition IsFullscreen :: "VulkanHostDisplay \<Rightarrow> bool" where
  "IsFullscreen s = False"

text \<open>
  \<^verbatim>\<open>SetFullscreen\<close> changes nothing and answers \<^verbatim>\<open>false\<close>; the refresh rate is a
  \<^verbatim>\<open>float\<close> the body never reads, so its type is left open.
\<close>

definition SetFullscreen ::
  "bool \<Rightarrow> u32 \<Rightarrow> u32 \<Rightarrow> 'f \<Rightarrow> VulkanHostDisplay \<Rightarrow> bool \<times> VulkanHostDisplay" where
  "SetFullscreen fullscreen width height refresh_rate s = (False, s)"

subsection \<open>Render device and render surface\<close>

definition HasRenderSurface :: "VulkanHostDisplay \<Rightarrow> bool" where
  "HasRenderSurface s = (m_swap_chain s \<noteq> None)"

text \<open>
  What \<^verbatim>\<open>Vulkan::Context::Create\<close> hands back: whether it succeeded, what it left in
  the two objects it was given pointers to (\<^verbatim>\<open>local_wi\<close> and \<^verbatim>\<open>m_swap_chain\<close>), and
  the vendor and driver id of the device it selected.
\<close>

record Context_Create_result =
  created :: bool
  out_wi :: WindowInfo
  out_swap_chain :: "SwapChain option"
  vendorID :: u32
  driverID :: u32

definition CreateRenderDevice ::
  "Context_Create_result \<Rightarrow> WindowInfo \<Rightarrow> VulkanHostDisplay \<Rightarrow> bool \<times> VulkanHostDisplay" where
  "CreateRenderDevice ctx wi s =
     (let s1 = (do_call (Context_Create wi) s)\<lparr>m_swap_chain := out_swap_chain ctx\<rparr>;
          local_wi = out_wi ctx
      in if \<not> created ctx then (False, s1\<lparr>m_window_info := WindowInfo_default\<rparr>)
         else
           (let s2 = do_call ShaderCache_Create s1;
                s3 = s2\<lparr>m_is_adreno :=
                          (vendorID ctx = 0x5143 \<or>
                           driverID ctx = VK_DRIVER_ID_QUALCOMM_PROPRIETARY)\<rparr>
            in (True,
                s3\<lparr>m_window_info :=
                      (case m_swap_chain s3 of
                         Some sc \<Rightarrow> GetWindowInfo sc
                       | None \<Rightarrow> local_wi)\<rparr>)))"

text \<open>
  Lines 80 to 98 of \<^verbatim>\<open>ChangeRenderWindow\<close>: create a surface and a swap chain for the
  new window. \<open>surface\<close> is the answer of \<^verbatim>\<open>CreateVulkanSurface\<close> (the handle and what
  it left in \<^verbatim>\<open>wi_copy\<close>), \<open>chain\<close> the answer of \<^verbatim>\<open>SwapChain::Create\<close>.
\<close>

definition ChangeRenderWindow_create ::
  "handle \<times> WindowInfo \<Rightarrow> SwapChain option \<Rightarrow> WindowInfo \<Rightarrow> VulkanHostDisplay
     \<Rightarrow> bool \<times> VulkanHostDisplay" where
  "ChangeRenderWindow_create surface chain new_wi s =
     (let (surf, wi_copy) = surface;
          s1 = do_call (CreateVulkanSurface new_wi) s
      in if surf = VK_NULL_HANDLE then (False, s1)
         else
           (let s2 = (do_call (SwapChain_Create wi_copy surf) s1)\<lparr>m_swap_chain := chain\<rparr>
            in case chain of
                 None \<Rightarrow> (False, do_call (DestroyVulkanSurface surf) s2)
               | Some sc \<Rightarrow> (True, s2\<lparr>m_window_info := GetWindowInfo sc\<rparr>)))"

text \<open>
  \<open>recreated\<close> is the answer of \<^verbatim>\<open>RecreateSurface\<close>: the swap chain as it is after a
  successful call, or \<open>None\<close> when the call reports failure (the caller then destroys
  the swap chain at once).
\<close>

definition ChangeRenderWindow ::
  "SwapChain option \<Rightarrow> handle \<times> WindowInfo \<Rightarrow> SwapChain option \<Rightarrow> WindowInfo
     \<Rightarrow> VulkanHostDisplay \<Rightarrow> bool \<times> VulkanHostDisplay" where
  "ChangeRenderWindow recreated surface chain new_wi s =
     (let s1 = do_call WaitForGPUIdle s
      in if type new_wi = Surfaceless then
           (True,
            (do_call (ExecuteCommandBuffer True) s1)
              \<lparr>m_swap_chain := None, m_window_info := new_wi\<rparr>)
         else
           (case m_swap_chain s1 of
              None \<Rightarrow> ChangeRenderWindow_create surface chain new_wi s1
            | Some sc \<Rightarrow>
                (let s2 = do_call (RecreateSurface new_wi) s1
                 in case recreated of
                      Some sc' \<Rightarrow>
                        (True, s2\<lparr>m_swap_chain := Some sc', m_window_info := GetWindowInfo sc'\<rparr>)
                    | None \<Rightarrow>
                        ChangeRenderWindow_create surface chain new_wi
                          (s2\<lparr>m_swap_chain := None\<rparr>))))"

text \<open>
  \<open>resized\<close> is the answer of \<^verbatim>\<open>ResizeSwapChain\<close>: the swap chain after a successful
  resize, or \<open>None\<close> when it reports failure, on which the code panics.
\<close>

definition ResizeRenderWindow ::
  "SwapChain option \<Rightarrow> s32 \<Rightarrow> s32 \<Rightarrow> VulkanHostDisplay \<Rightarrow> VulkanHostDisplay result" where
  "ResizeRenderWindow resized new_window_width new_window_height s =
     (let s1 = do_call WaitForGPUIdle s
      in case m_swap_chain s1 of
           None \<Rightarrow> Inl (NullPointer, s1)
         | Some sc \<Rightarrow>
             (let s2 = do_call (ResizeSwapChain new_window_width new_window_height) s1
              in case resized of
                   None \<Rightarrow> Inl (Panic ''Failed to resize swap chain'', s2)
                 | Some sc' \<Rightarrow>
                     Inr (s2\<lparr>m_swap_chain := Some sc', m_window_info := GetWindowInfo sc'\<rparr>)))"


subsection \<open>The readback staging buffer\<close>

definition DestroyStagingBuffer :: "VulkanHostDisplay \<Rightarrow> VulkanHostDisplay" where
  "DestroyStagingBuffer s =
     (if m_readback_staging_buffer s = VK_NULL_HANDLE then s
      else (do_call (vmaDestroyBuffer (m_readback_staging_buffer s)
                       (m_readback_staging_allocation s)) s)
             \<lparr>m_readback_staging_buffer := VK_NULL_HANDLE,
              m_readback_staging_allocation := VK_NULL_HANDLE,
              m_readback_staging_buffer_map := 0,
              m_readback_staging_buffer_size := 0\<rparr>)"

text \<open>
  What \<^verbatim>\<open>vmaCreateBuffer\<close> hands back: its result code and what it wrote through the
  three out-pointers (the buffer, its allocation, the mapped address).
\<close>

record vmaCreateBuffer_result =
  res :: VkResult
  buffer :: handle
  allocation :: handle
  pMappedData :: handle

text \<open>
  The call \<open>vmaCreateBuffer size flags\<close> records \<^verbatim>\<open>bci.size\<close> and
  \<^verbatim>\<open>aci.preferredFlags\<close>; the other members of the two create-info structs are
  constants.
\<close>

definition CheckStagingBufferSize ::
  "vmaCreateBuffer_result \<Rightarrow> u32 \<Rightarrow> VulkanHostDisplay \<Rightarrow> bool \<times> VulkanHostDisplay" where
  "CheckStagingBufferSize vma required_size s =
     (if m_readback_staging_buffer_size s \<ge> required_size then (True, s)
      else
        (let s1 = DestroyStagingBuffer s;
             preferredFlags =
               (if m_is_adreno s1
                then VK_MEMORY_PROPERTY_HOST_CACHED_BIT OR VK_MEMORY_PROPERTY_HOST_COHERENT_BIT
                else VK_MEMORY_PROPERTY_HOST_CACHED_BIT);
             s2 = (do_call (vmaCreateBuffer required_size preferredFlags) s1)
                    \<lparr>m_readback_staging_buffer := buffer vma,
                     m_readback_staging_allocation := allocation vma\<rparr>
         in if res vma \<noteq> VK_SUCCESS then (False, s2)
            else (True, s2\<lparr>m_readback_staging_buffer_map := pMappedData vma\<rparr>)))"

text \<open>
  \<^verbatim>\<open>DownloadTexture\<close>. \<open>pitch\<close> is the answer of \<^verbatim>\<open>CalcUpdatePitch(width)\<close>; the size
  of the readback is \<^verbatim>\<open>pitch * height\<close> in 32-bit arithmetic. The layout transitions
  and memory barriers around the copy and the bytes copied out are not modelled.
\<close>

definition DownloadTexture ::
  "vmaCreateBuffer_result \<Rightarrow> u32 \<Rightarrow> tex_ref \<Rightarrow> u32 \<Rightarrow> u32 \<Rightarrow> VulkanHostDisplay
     \<Rightarrow> bool \<times> VulkanHostDisplay" where
  "DownloadTexture vma pitch tex width height s =
     (let size = pitch * height
      in case CheckStagingBufferSize vma size s of
           (False, s1) \<Rightarrow> (False, s1)
         | (True, s1) \<Rightarrow>
             (let s2 = do_call (vkCmdCopyImageToBuffer tex (m_readback_staging_buffer s1)) s1;
                  s3 = do_call (ExecuteCommandBuffer True) s2;
                  s4 = do_call (vmaInvalidateAllocation (m_readback_staging_allocation s3) size) s3
              in (True, s4)))"

text \<open>
  A sequence of \<^verbatim>\<open>DownloadTexture\<close> calls, each with the driver's answer, the pitch,
  the width and the height of that call.
\<close>

fun DownloadTexture_calls ::
  "(vmaCreateBuffer_result \<times> u32 \<times> u32 \<times> u32) list \<Rightarrow> VulkanHostDisplay
     \<Rightarrow> VulkanHostDisplay" where
  "DownloadTexture_calls [] s = s"
| "DownloadTexture_calls ((vma, pitch, width, height) # rest) s =
     DownloadTexture_calls rest
       (snd (DownloadTexture vma pitch screenshot_texture width height s))"

subsection \<open>Answers of the collaborators during rendering\<close>

text \<open>
  The answers the display gets while it records a frame, builds a post-processing chain
  or takes a screenshot, and the one constant of another header the file uses:
  \<^item> \<open>AllocateDescriptorSet_result\<close>: the descriptor set handed out at a call site;
  \<^item> \<open>Texture_Create_result\<close>, \<open>CreateFramebuffer_result\<close>: whether the texture was
    created, and the framebuffer made for it;
  \<^item> \<open>ReserveMemory_result\<close>: whether the uniform stream buffer had room for stage \<open>i\<close>;
  \<^item> \<open>CalculateDrawRect\<close>, \<open>CalculateSoftwareCursorDrawRect\<close>: the rectangles the base
    class computes; \<open>ImGui_GetCurrentContext\<close>: whether an ImGui context exists;
  \<^item> \<open>GetClearRenderPass_result\<close>, \<open>CalcUpdatePitch\<close>: the swap chain's render pass and
    the row pitch of a texture;
  \<^item> \<open>readback\<close>: the pixel vector after the staging buffer was copied into it;
  \<^item> \<open>CreateFromString_result\<close>: whether the chain parser accepted the configuration, and
    the stages the chain object holds after the call;
  \<^item> \<open>GetVertexShader_result\<close>, \<open>GetFragmentShader_result\<close>, \<open>Pipeline_Create_result\<close>:
    the shader modules and the pipeline built for stage \<open>i\<close>;
  \<^item> \<open>StreamBuffer_Create_result\<close>: whether the uniform buffer could be allocated;
  \<^item> \<open>PUSH_CONSTANT_SIZE_THRESHOLD\<close>: the constant of \<^verbatim>\<open>PostProcessingShader\<close>.
\<close>

record driver =
  AllocateDescriptorSet_result :: "ds_site \<Rightarrow> handle"
  Texture_Create_result :: "tex_ref \<Rightarrow> bool"
  CreateFramebuffer_result :: "tex_ref \<Rightarrow> handle"
  ReserveMemory_result :: "nat \<Rightarrow> bool"
  CalculateDrawRect :: "s32 \<Rightarrow> s32 \<Rightarrow> s32 \<times> s32 \<times> s32 \<times> s32"
  CalculateSoftwareCursorDrawRect :: "s32 \<times> s32 \<times> s32 \<times> s32"
  ImGui_GetCurrentContext :: bool
  GetClearRenderPass_result :: handle
  CalcUpdatePitch :: "u32 \<Rightarrow> u32"
  readback :: "u32 list \<Rightarrow> u32 list"
  CreateFromString_result :: "bool \<times> PostProcessingShader list"
  GetVertexShader_result :: "nat \<Rightarrow> handle"
  GetFragmentShader_result :: "nat \<Rightarrow> handle"
  Pipeline_Create_result :: "nat \<Rightarrow> handle"
  StreamBuffer_Create_result :: bool
  PUSH_CONSTANT_SIZE_THRESHOLD :: u32

text \<open>Members of the \<^verbatim>\<open>HostDisplay\<close> base class the file reads.\<close>

definition HasDisplayTexture :: "VulkanHostDisplay \<Rightarrow> bool" where
  "HasDisplayTexture s = (m_display_texture s \<noteq> 0)"

definition HasSoftwareCursor :: "VulkanHostDisplay \<Rightarrow> bool" where
  "HasSoftwareCursor s = (m_cursor_texture s \<noteq> 0)"

definition GetWindowWidth :: "VulkanHostDisplay \<Rightarrow> s32" where
  "GetWindowWidth s = surface_width (m_window_info s)"

definition GetWindowHeight :: "VulkanHostDisplay \<Rightarrow> s32" where
  "GetWindowHeight s = surface_height (m_window_info s)"

subsection \<open>Drawing the display and the cursor\<close>

text \<open>
  Of the commands a function records, \<open>calls\<close> keeps the ones listed in \<open>call\<close>. Debug
  scopes, object names, log lines, \<^verbatim>\<open>vkCmdBindDescriptorSets\<close> and the floating-point
  push constants of the display quad are left out.
\<close>

definition BeginSwapChainRenderPass ::
  "handle \<Rightarrow> u32 \<Rightarrow> u32 \<Rightarrow> VulkanHostDisplay \<Rightarrow> VulkanHostDisplay result" where
  "BeginSwapChainRenderPass framebuffer width height s =
     (case m_swap_chain s of
        None \<Rightarrow> Inl (NullPointer, s)
      | Some sc \<Rightarrow> Inr (do_call (vkCmdBeginRenderPass framebuffer width height) s))"

text \<open>
  The overload \<^verbatim>\<open>RenderDisplay(left, top, width, height, texture, ...)\<close>: one
  fullscreen triangle with the display pipeline, sampling \<open>texture\<close>.
\<close>

definition RenderDisplay_texture ::
  "driver \<Rightarrow> s32 \<Rightarrow> s32 \<Rightarrow> s32 \<Rightarrow> s32 \<Rightarrow> tex_ref \<Rightarrow> VulkanHostDisplay \<Rightarrow> VulkanHostDisplay" where
  "RenderDisplay_texture d left top_y width height texture s =
     (let s1 = do_call (AllocateDescriptorSet display_ds) s
      in if AllocateDescriptorSet_result d display_ds = VK_NULL_HANDLE then s1
         else do_calls
                [AddCombinedImageSamplerDescriptorWrite texture,
                 vkCmdBindPipeline (m_display_pipeline s1),
                 vkCmdPushConstants 16,
                 SetViewportAndScissor left top_y width height,
                 vkCmdDraw] s1)"

text \<open>The overload \<^verbatim>\<open>RenderSoftwareCursor(left, top, width, height, texture)\<close>.\<close>

definition RenderSoftwareCursor_texture ::
  "driver \<Rightarrow> s32 \<Rightarrow> s32 \<Rightarrow> s32 \<Rightarrow> s32 \<Rightarrow> tex_ref \<Rightarrow> VulkanHostDisplay \<Rightarrow> VulkanHostDisplay" where
  "RenderSoftwareCursor_texture d left top_y width height texture s =
     (let s1 = do_call (AllocateDescriptorSet cursor_ds) s
      in if AllocateDescriptorSet_result d cursor_ds = VK_NULL_HANDLE then s1
         else do_calls
                [AddCombinedImageSamplerDescriptorWrite texture,
                 vkCmdBindPipeline (m_cursor_pipeline s1),
                 vkCmdPushConstants 16,
                 SetViewportAndScissor left top_y width height,
                 vkCmdDraw] s1)"

definition RenderSoftwareCursor :: "driver \<Rightarrow> VulkanHostDisplay \<Rightarrow> VulkanHostDisplay" where
  "RenderSoftwareCursor d s =
     (if \<not> HasSoftwareCursor s then s
      else
        (let (left, top_y, width, height) = CalculateSoftwareCursorDrawRect d
         in RenderSoftwareCursor_texture d left top_y width height cursor_texture s))"

definition RenderImGui :: "VulkanHostDisplay \<Rightarrow> VulkanHostDisplay" where
  "RenderImGui s = do_calls [ImGui_Render, ImGui_RenderDrawData] s"

subsection \<open>Post-processing render targets\<close>

text \<open>
  The block \<^verbatim>\<open>CheckPostProcessingRenderTargets\<close> runs for the input texture and again
  for the output texture of every stage but the last: when the texture \<open>t\<close> does not have
  the target size, retire its framebuffer \<open>fb\<close>, create the texture anew at that size
  and make a framebuffer for it. The result is whether the target is usable, the
  texture, its framebuffer and the display state. A texture that could not be created
  is taken to keep the size it had.
\<close>

definition check_render_target ::
  "driver \<Rightarrow> tex_ref \<Rightarrow> u32 \<Rightarrow> u32 \<Rightarrow> Texture \<Rightarrow> handle \<Rightarrow> VulkanHostDisplay
     \<Rightarrow> (bool \<times> Texture \<times> handle \<times> VulkanHostDisplay) result" where
  "check_render_target d r target_width target_height t fb s =
     (if tex_width t \<noteq> target_width \<or> tex_height t \<noteq> target_height then
        (let (fb1, s1) =
               (if fb \<noteq> VK_NULL_HANDLE
                then (VK_NULL_HANDLE, do_call (DeferFramebufferDestruction fb) s)
                else (fb, s))
         in case m_swap_chain s1 of
              None \<Rightarrow> Inl (NullPointer, s1)
            | Some sc \<Rightarrow>
                (let s2 = do_call (Texture_Create r target_width target_height
                                     (GetTextureFormat sc)) s1
                 in if \<not> Texture_Create_result d r then Inr (False, t, fb1, s2)
                    else
                      (let t' = \<lparr>tex_width = target_width, tex_height = target_height\<rparr>;
                           fb2 = CreateFramebuffer_result d r;
                           s3 = do_call (CreateFramebuffer r) s2
                       in Inr (fb2 \<noteq> VK_NULL_HANDLE, t', fb2, s3))))
      else Inr (True, t, fb, s))"

definition check_stage_output ::
  "driver \<Rightarrow> u32 \<Rightarrow> u32 \<Rightarrow> nat \<Rightarrow> VulkanHostDisplay \<Rightarrow> (bool \<times> VulkanHostDisplay) result" where
  "check_stage_output d target_width target_height i s =
     (if i \<ge> length (m_post_processing_stages s) then Inl (OutOfRange, s)
      else
        (let pps = m_post_processing_stages s ! i
         in case check_render_target d (stage_output_texture i) target_width target_height
                   (output_texture pps) (output_framebuffer pps) s of
              Inl e \<Rightarrow> Inl e
            | Inr (ok, t, fb, s1) \<Rightarrow>
                Inr (ok,
                     s1\<lparr>m_post_processing_stages :=
                          (m_post_processing_stages s1)
                            [i := pps\<lparr>output_texture := t, output_framebuffer := fb\<rparr>]\<rparr>)))"

fun check_stage_outputs ::
  "driver \<Rightarrow> u32 \<Rightarrow> u32 \<Rightarrow> nat list \<Rightarrow> VulkanHostDisplay \<Rightarrow> (bool \<times> VulkanHostDisplay) result" where
  "check_stage_outputs d target_width target_height [] s = Inr (True, s)"
| "check_stage_outputs d target_width target_height (i # rest) s =
     (case check_stage_output d target_width target_height i s of
        Inl e \<Rightarrow> Inl e
      | Inr (ok, s1) \<Rightarrow>
          if ok then check_stage_outputs d target_width target_height rest s1
          else Inr (False, s1))"

text \<open>
  \<^verbatim>\<open>DebugAssert(!m_post_processing_stages.empty())\<close> guards the subtraction
  \<^verbatim>\<open>size() - 1\<close>; an empty stage list is the error \<open>AssertionFailed\<close>.
\<close>

definition CheckPostProcessingRenderTargets ::
  "driver \<Rightarrow> u32 \<Rightarrow> u32 \<Rightarrow> VulkanHostDisplay \<Rightarrow> (bool \<times> VulkanHostDisplay) result" where
  "CheckPostProcessingRenderTargets d target_width target_height s =
     (if m_post_processing_stages s = [] then Inl (AssertionFailed, s)
      else
        (case check_render_target d post_processing_input_texture target_width target_height
                (m_post_processing_input_texture s) (m_post_processing_input_framebuffer s) s of
           Inl e \<Rightarrow> Inl e
         | Inr (ok, t, fb, s1) \<Rightarrow>
             (let s2 = s1\<lparr>m_post_processing_input_texture := t,
                          m_post_processing_input_framebuffer := fb\<rparr>;
                  target_count = length (m_post_processing_stages s2) - 1
              in if ok then check_stage_outputs d target_width target_height [0..<target_count] s2
                 else Inr (False, s2))))"

subsection \<open>Running the post-processing chain\<close>

text \<open>
  One turn of the loop of \<^verbatim>\<open>ApplyPostProcessingChain\<close> for stage \<open>i\<close>, reading from
  \<open>texture\<close>. The result says whether the loop goes on (\<open>False\<close> is the early return
  when no descriptor set could be allocated), the texture the next stage reads from, and
  the state. The loop bound keeps \<open>i\<close> within the stage list; \<^verbatim>\<open>GetShaderStage(i)\<close> on a
  chain with fewer shaders than the display has stages is the error \<open>OutOfRange\<close>. A
  failed \<^verbatim>\<open>Assert\<close> is \<open>AssertionFailed\<close>.
\<close>

definition apply_stage ::
  "driver \<Rightarrow> handle \<Rightarrow> u32 \<Rightarrow> u32 \<Rightarrow> nat \<Rightarrow> nat \<Rightarrow> tex_ref \<Rightarrow> VulkanHostDisplay
     \<Rightarrow> (bool \<times> tex_ref \<times> VulkanHostDisplay) result" where
  "apply_stage d target_fb target_width target_height final_stage i texture s =
     (if i \<ge> length (m_post_processing_stages s) \<or> i \<ge> length (m_post_processing_chain s)
      then Inl (OutOfRange, s)
      else
        (let pps = m_post_processing_stages s ! i;
             shader = m_post_processing_chain s ! i
         in case (if i \<noteq> final_stage
                  then BeginSwapChainRenderPass (output_framebuffer pps) target_width target_height
                         (do_call (TransitionToLayout (stage_output_texture i)
                                     VK_IMAGE_LAYOUT_COLOR_ATTACHMENT_OPTIMAL) s)
                  else BeginSwapChainRenderPass target_fb target_width target_height s) of
              Inl e \<Rightarrow> Inl e
            | Inr s1 \<Rightarrow>
                (let use_push_constants = UsePushConstants shader;
                     s2 = do_call (AllocateDescriptorSet (stage_ds i)) s1
                 in if AllocateDescriptorSet_result d (stage_ds i) = VK_NULL_HANDLE
                    then Inr (False, texture, s2)
                    else
                      (let s3 = do_call (AddCombinedImageSamplerDescriptorWrite texture) s2
                       in case (if use_push_constants then
                                  (if \<not> uniforms_size pps \<le> PUSH_CONSTANT_SIZE_THRESHOLD d
                                   then Inl (AssertionFailed, s3)
                                   else Inr (do_call (vkCmdPushConstants (uniforms_size pps)) s3))
                                else
                                  (let s4 = do_call (ReserveMemory (uniforms_size pps)) s3
                                   in if \<not> ReserveMemory_result d i
                                      then Inl (Panic ''Failed to reserve space in post-processing UBO'',
                                                s4)
                                      else Inr (do_call (CommitMemory (uniforms_size pps)) s4))) of
                            Inl e \<Rightarrow> Inl e
                          | Inr s5 \<Rightarrow>
                              (let s6 = do_calls [vkCmdBindPipeline (pipeline pps), vkCmdDraw] s5
                               in if i \<noteq> final_stage
                                  then Inr (True, stage_output_texture i,
                                            do_calls
                                              [vkCmdEndRenderPass,
                                               TransitionToLayout (stage_output_texture i)
                                                 VK_IMAGE_LAYOUT_SHADER_READ_ONLY_OPTIMAL] s6)
                                  else Inr (True, texture, s6))))))"

fun apply_stages ::
  "driver \<Rightarrow> handle \<Rightarrow> u32 \<Rightarrow> u32 \<Rightarrow> nat \<Rightarrow> nat list \<Rightarrow> tex_ref \<Rightarrow> VulkanHostDisplay
     \<Rightarrow> VulkanHostDisplay result" where
  "apply_stages d target_fb target_width target_height final_stage [] texture s = Inr s"
| "apply_stages d target_fb target_width target_height final_stage (i # rest) texture s =
     (case apply_stage d target_fb target_width target_height final_stage i texture s of
        Inl e \<Rightarrow> Inl e
      | Inr (continue, texture', s1) \<Rightarrow>
          if continue
          then apply_stages d target_fb target_width target_height final_stage rest texture' s1
          else Inr s1)"

definition ApplyPostProcessingChain ::
  "driver \<Rightarrow> handle \<Rightarrow> s32 \<Rightarrow> s32 \<Rightarrow> s32 \<Rightarrow> s32 \<Rightarrow> tex_ref \<Rightarrow> u32 \<Rightarrow> u32
     \<Rightarrow> VulkanHostDisplay \<Rightarrow> VulkanHostDisplay result" where
  "ApplyPostProcessingChain d target_fb final_left final_top final_width final_height texture
       target_width target_height s =
     (case CheckPostProcessingRenderTargets d target_width target_height s of
        Inl e \<Rightarrow> Inl e
      | Inr (ok, s1) \<Rightarrow>
          if \<not> ok then
            (case BeginSwapChainRenderPass target_fb target_width target_height s1 of
               Inl e \<Rightarrow> Inl e
             | Inr s2 \<Rightarrow>
                 Inr (RenderDisplay_texture d final_left final_top final_width final_height
                        texture s2))
          else
            (let s2 = do_call (TransitionToLayout post_processing_input_texture
                                 VK_IMAGE_LAYOUT_COLOR_ATTACHMENT_OPTIMAL) s1
             in case BeginSwapChainRenderPass (m_post_processing_input_framebuffer s2)
                       target_width target_height s2 of
                  Inl e \<Rightarrow> Inl e
                | Inr s3 \<Rightarrow>
                    (let s4 = RenderDisplay_texture d final_left final_top final_width
                                final_height texture s3;
                         s5 = do_calls
                                [vkCmdEndRenderPass,
                                 TransitionToLayout post_processing_input_texture
                                   VK_IMAGE_LAYOUT_SHADER_READ_ONLY_OPTIMAL] s4;
                         final_stage = length (m_post_processing_stages s5) - 1
                     in apply_stages d target_fb target_width target_height final_stage
                          [0..<length (m_post_processing_stages s5)]
                          post_processing_input_texture s5)))"

subsection \<open>Rendering a frame\<close>

text \<open>The overload \<^verbatim>\<open>RenderDisplay()\<close>, which draws into the swap chain's framebuffer.\<close>

definition RenderDisplay :: "driver \<Rightarrow> VulkanHostDisplay \<Rightarrow> VulkanHostDisplay result" where
  "RenderDisplay d s =
     (case m_swap_chain s of
        None \<Rightarrow> Inl (NullPointer, s)
      | Some sc \<Rightarrow>
          if \<not> HasDisplayTexture s
          then BeginSwapChainRenderPass (GetCurrentFramebuffer sc) (GetWidth sc) (GetHeight sc) s
          else
            (let (left, top_y, width, height) =
                   CalculateDrawRect d (GetWindowWidth s) (GetWindowHeight s)
             in if m_post_processing_chain s \<noteq> []
                then ApplyPostProcessingChain d (GetCurrentFramebuffer sc) left top_y width height
                       display_texture (GetWidth sc) (GetHeight sc) s
                else
                  (case BeginSwapChainRenderPass (GetCurrentFramebuffer sc) (GetWidth sc)
                          (GetHeight sc) s of
                     Inl e \<Rightarrow> Inl e
                   | Inr s1 \<Rightarrow>
                       Inr (RenderDisplay_texture d left top_y width height display_texture s1))))"

text \<open>
  What the swap chain answers during \<^verbatim>\<open>Render\<close>: the result of the first
  \<^verbatim>\<open>AcquireNextImage\<close>, the result of the second one (asked only after a resize or a
  recreated surface), the swap chain after \<^verbatim>\<open>ResizeSwapChain\<close> and after
  \<^verbatim>\<open>RecreateSurface\<close> (\<open>None\<close> when the call reports failure).
\<close>

record swap_chain_answers =
  AcquireNextImage_first :: VkResult
  AcquireNextImage_retry :: VkResult
  ResizeSwapChain_result :: "SwapChain option"
  RecreateSurface_result :: "SwapChain option"

text \<open>Lines 630 to 657 of \<^verbatim>\<open>Render\<close>: record the frame, submit it with a present.\<close>

definition Render_present ::
  "driver \<Rightarrow> VulkanHostDisplay \<Rightarrow> (bool \<times> VulkanHostDisplay) result" where
  "Render_present d s =
     (case m_swap_chain s of
        None \<Rightarrow> Inl (NullPointer, s)
      | Some sc0 \<Rightarrow>
          (let s1 = do_calls
                      [OverrideImageLayout swap_chain_texture VK_IMAGE_LAYOUT_UNDEFINED,
                       TransitionToLayout swap_chain_texture
                         VK_IMAGE_LAYOUT_COLOR_ATTACHMENT_OPTIMAL] s
           in case RenderDisplay d s1 of
                Inl e \<Rightarrow> Inl e
              | Inr s2 \<Rightarrow>
                  (let s3 = (if ImGui_GetCurrentContext d then RenderImGui s2 else s2);
                       s4 = RenderSoftwareCursor d s3;
                       s5 = do_calls
                              [vkCmdEndRenderPass,
                               TransitionToLayout swap_chain_texture
                                 VK_IMAGE_LAYOUT_PRESENT_SRC_KHR] s4
                   in case m_swap_chain s5 of
                        None \<Rightarrow> Inl (NullPointer, s5)
                      | Some sc \<Rightarrow>
                          Inr (True,
                               do_calls [SubmitCommandBuffer (\<not> IsVSyncEnabled sc),
                                         MoveToNextCommandBuffer] s5))))"

text \<open>
  Lines 619 to 628 of \<^verbatim>\<open>Render\<close>: the check of the acquire result \<open>r\<close> that decides
  between giving the frame up and presenting it.
\<close>

definition Render_acquired ::
  "driver \<Rightarrow> VkResult \<Rightarrow> VulkanHostDisplay \<Rightarrow> (bool \<times> VulkanHostDisplay) result" where
  "Render_acquired d r s =
     (if r \<noteq> VK_SUCCESS \<and> r \<noteq> VK_SUBOPTIMAL_KHR
      then Inr (False, do_call (ExecuteCommandBuffer False) s)
      else Render_present d s)"

definition Render ::
  "swap_chain_answers \<Rightarrow> driver \<Rightarrow> bool \<Rightarrow> VulkanHostDisplay
     \<Rightarrow> (bool \<times> VulkanHostDisplay) result" where
  "Render a d skip_present s =
     (if skip_present \<or> m_swap_chain s = None
      then Inr (False, if ImGui_GetCurrentContext d then do_call ImGui_Render s else s)
      else
        (let s1 = do_calls [WaitForPresentComplete, AcquireNextImage] s;
             r = AcquireNextImage_first a
         in if r \<noteq> VK_SUCCESS then
              (if r = VK_SUBOPTIMAL_KHR \<or> r = VK_ERROR_OUT_OF_DATE_KHR then
                 (case ResizeRenderWindow (ResizeSwapChain_result a) 0 0 s1 of
                    Inl e \<Rightarrow> Inl e
                  | Inr s2 \<Rightarrow>
                      Render_acquired d (AcquireNextImage_retry a) (do_call AcquireNextImage s2))
               else if r = VK_ERROR_SURFACE_LOST_KHR then
                 (let s2 = do_call (RecreateSurface (m_window_info s1)) s1
                  in case RecreateSurface_result a of
                       None \<Rightarrow>
                         Inr (False,
                              (do_call (ExecuteCommandBuffer False) s2)\<lparr>m_swap_chain := None\<rparr>)
                     | Some sc' \<Rightarrow>
                         Render_acquired d (AcquireNextImage_retry a)
                           (do_call AcquireNextImage (s2\<lparr>m_swap_chain := Some sc'\<rparr>)))
               else Render_acquired d r s1)
            else Render_present d s1))"

subsection \<open>Screenshots\<close>

text \<open>\<^verbatim>\<open>std::vector::resize\<close> on a vector of \<^verbatim>\<open>u32\<close>: new elements are zero.\<close>

definition resize :: "nat \<Rightarrow> u32 list \<Rightarrow> u32 list" where
  "resize n xs = take n xs @ replicate (n - length xs) 0"

text \<open>
  The \<^verbatim>\<open>switch\<close> of \<^verbatim>\<open>RenderScreenshot\<close> on the swap-chain format. It writes the three
  out-parameters (the pixel vector, the stride, the texture format); for a format it
  does not know it logs an error and writes none of them. The products are 32-bit.
\<close>

fun screenshot_layout ::
  "VkFormat \<Rightarrow> u32 \<Rightarrow> u32 \<Rightarrow> u32 list \<times> u32 \<times> GPUTexture_Format
     \<Rightarrow> u32 list \<times> u32 \<times> GPUTexture_Format" where
  "screenshot_layout VK_FORMAT_R8G8B8A8_UNORM width height (out_pixels, out_stride, out_format) =
     (resize (unat (width * height)) out_pixels, 4 * width, RGBA8)"
| "screenshot_layout VK_FORMAT_R8G8B8A8_SRGB width height (out_pixels, out_stride, out_format) =
     (resize (unat (width * height)) out_pixels, 4 * width, RGBA8)"
| "screenshot_layout VK_FORMAT_B8G8R8A8_UNORM width height (out_pixels, out_stride, out_format) =
     (resize (unat (width * height)) out_pixels, 4 * width, BGRA8)"
| "screenshot_layout VK_FORMAT_B8G8R8A8_SRGB width height (out_pixels, out_stride, out_format) =
     (resize (unat (width * height)) out_pixels, 4 * width, BGRA8)"
| "screenshot_layout VK_FORMAT_A1R5G5B5_UNORM_PACK16 width height
       (out_pixels, out_stride, out_format) =
     (resize (unat ((width * height + 1) div 2)) out_pixels, 2 * width, RGBA5551)"
| "screenshot_layout VK_FORMAT_R5G6B5_UNORM_PACK16 width height
       (out_pixels, out_stride, out_format) =
     (resize (unat ((width * height + 1) div 2)) out_pixels, 2 * width, RGB565)"
| "screenshot_layout format width height (out_pixels, out_stride, out_format) =
     (out_pixels, out_stride, out_format)"

text \<open>
  Lines 708 to 754 of \<^verbatim>\<open>RenderScreenshot\<close>: render the display into a temporary
  texture and read it back. The result of \<^verbatim>\<open>DownloadTexture\<close> is not looked at.
\<close>

definition RenderScreenshot_render ::
  "driver \<Rightarrow> vmaCreateBuffer_result \<Rightarrow> u32 \<Rightarrow> u32 \<Rightarrow> VkFormat
     \<Rightarrow> u32 list \<times> u32 \<times> GPUTexture_Format \<Rightarrow> VulkanHostDisplay
     \<Rightarrow> (bool \<times> (u32 list \<times> u32 \<times> GPUTexture_Format) \<times> VulkanHostDisplay) result" where
  "RenderScreenshot_render d vma width height format out s =
     (let s1 = do_call (Texture_Create screenshot_texture width height format) s
      in if \<not> Texture_Create_result d screenshot_texture then Inr (False, out, s1)
         else if GetClearRenderPass_result d = VK_NULL_HANDLE then Inr (False, out, s1)
         else
           (let fb = CreateFramebuffer_result d screenshot_texture;
                s2 = do_call (CreateFramebuffer screenshot_texture) s1
            in if fb = VK_NULL_HANDLE then Inr (False, out, s2)
               else
                 (let s3 = do_call (TransitionToLayout screenshot_texture
                                      VK_IMAGE_LAYOUT_COLOR_ATTACHMENT_OPTIMAL) s2;
                      (left, top_y, draw_width, draw_height) = CalculateDrawRect d width height
                  in case (if m_post_processing_chain s3 \<noteq> []
                           then ApplyPostProcessingChain d fb left top_y draw_width draw_height
                                  display_texture width height s3
                           else
                             (case BeginSwapChainRenderPass fb width height s3 of
                                Inl e \<Rightarrow> Inl e
                              | Inr s4 \<Rightarrow>
                                  Inr (RenderDisplay_texture d left top_y draw_width draw_height
                                         display_texture s4))) of
                       Inl e \<Rightarrow> Inl e
                     | Inr s5 \<Rightarrow>
                         (let s6 = do_calls
                                     [vkCmdEndRenderPass,
                                      TransitionToLayout screenshot_texture
                                        VK_IMAGE_LAYOUT_TRANSFER_SRC_OPTIMAL] s5;
                              (out_pixels, out_stride, out_format) = out;
                              (downloaded, s7) =
                                DownloadTexture vma (CalcUpdatePitch d width) screenshot_texture
                                  width height s6;
                              out' = ((if downloaded then readback d out_pixels else out_pixels),
                                      out_stride, out_format);
                              s8 = do_calls [vkDestroyFramebuffer fb,
                                             Texture_Destroy screenshot_texture] s7
                          in Inr (True, out', s8)))))"

text \<open>
  \<^verbatim>\<open>RenderScreenshot\<close>. The three out-parameters come in with the values the caller's
  objects hold and go out with the values the function leaves in them.
\<close>

definition RenderScreenshot ::
  "driver \<Rightarrow> vmaCreateBuffer_result \<Rightarrow> u32 \<Rightarrow> u32 \<Rightarrow> u32 list \<times> u32 \<times> GPUTexture_Format
     \<Rightarrow> VulkanHostDisplay
     \<Rightarrow> (bool \<times> (u32 list \<times> u32 \<times> GPUTexture_Format) \<times> VulkanHostDisplay) result" where
  "RenderScreenshot d vma width height out s =
     (case m_swap_chain s of
        None \<Rightarrow> Inr (False, out, s)
      | Some sc \<Rightarrow>
          (let format = GetTextureFormat sc;
               (out_pixels, out_stride, out_format) = screenshot_layout format width height out
           in if \<not> HasDisplayTexture s
              then Inr (True, (replicate (length out_pixels) 0, out_stride, out_format), s)
              else RenderScreenshot_render d vma width height format
                     (out_pixels, out_stride, out_format) s))"

subsection \<open>Building the post-processing chain\<close>

definition UBO_SIZE :: u32 where
  "UBO_SIZE = 1 * 1024 * 1024"

text \<open>A default-constructed \<^verbatim>\<open>PostProcessingStage\<close>.\<close>

definition PostProcessingStage_default :: PostProcessingStage where
  "PostProcessingStage_default =
     \<lparr>pipeline = VK_NULL_HANDLE, output_framebuffer = VK_NULL_HANDLE,
      output_texture = \<lparr>tex_width = 0, tex_height = 0\<rparr>, uniforms_size = 0\<rparr>"

text \<open>
  The destructor \<^verbatim>\<open>~PostProcessingStage\<close> of the stage at index \<open>i\<close> of the stage list:
  it retires the output framebuffer if there is one, destroys the output texture, and
  retires the pipeline if there is one.
\<close>

definition PostProcessingStage_destructor :: "nat \<Rightarrow> PostProcessingStage \<Rightarrow> call list" where
  "PostProcessingStage_destructor i stage =
     (if output_framebuffer stage \<noteq> VK_NULL_HANDLE
      then [DeferFramebufferDestruction (output_framebuffer stage)] else []) @
     [Texture_Destroy (stage_output_texture i)] @
     (if pipeline stage \<noteq> VK_NULL_HANDLE
      then [DeferPipelineDestruction (pipeline stage)] else [])"

text \<open>
  \<^verbatim>\<open>m_post_processing_stages.clear()\<close> destroys the stages the list holds, first to
  last. The destructors of the local \<^verbatim>\<open>stage\<close> of the loop below, and of stages a
  growing vector has moved away from, find null handles and an empty texture; they are
  not recorded.
\<close>

definition clear_stages :: "VulkanHostDisplay \<Rightarrow> VulkanHostDisplay" where
  "clear_stages s =
     (do_calls
        (concat (map (\<lambda>i. PostProcessingStage_destructor i (m_post_processing_stages s ! i))
                   [0..<length (m_post_processing_stages s)])) s)
       \<lparr>m_post_processing_stages := []\<rparr>"

text \<open>The pair \<^verbatim>\<open>m_post_processing_stages.clear(); m_post_processing_chain.ClearStages();\<close>.\<close>

definition clear_post_processing :: "VulkanHostDisplay \<Rightarrow> VulkanHostDisplay" where
  "clear_post_processing s = (clear_stages s)\<lparr>m_post_processing_chain := []\<rparr>"

text \<open>
  One turn of the loop of \<^verbatim>\<open>SetPostProcessingChain\<close> for shader \<open>i\<close> of the chain:
  whether the stage was built, the running \<^verbatim>\<open>only_use_push_constants\<close>, the state.
  When only the fragment shader module exists, the code passes \<^verbatim>\<open>vs_mod\<close> (null) to
  \<^verbatim>\<open>vkDestroyShaderModule\<close>, and so does the model.
\<close>

definition build_stage ::
  "driver \<Rightarrow> nat \<Rightarrow> bool \<Rightarrow> VulkanHostDisplay \<Rightarrow> bool \<times> bool \<times> VulkanHostDisplay" where
  "build_stage d i only_use_push_constants s =
     (let shader = m_post_processing_chain s ! i;
          use_push_constants = UsePushConstants shader;
          only' = (only_use_push_constants \<and> use_push_constants);
          stage = PostProcessingStage_default\<lparr>uniforms_size := GetUniformsSize shader\<rparr>;
          vs_mod = GetVertexShader_result d i;
          fs_mod = GetFragmentShader_result d i;
          s1 = do_calls [GetVertexShader i, GetFragmentShader i] s
      in if vs_mod = VK_NULL_HANDLE \<or> fs_mod = VK_NULL_HANDLE then
           (let s2 = (if vs_mod \<noteq> VK_NULL_HANDLE
                      then do_call (vkDestroyShaderModule vs_mod) s1 else s1);
                s3 = (if fs_mod \<noteq> VK_NULL_HANDLE
                      then do_call (vkDestroyShaderModule vs_mod) s2 else s2)
            in (False, only', clear_post_processing s3))
         else
           (let stage' = stage\<lparr>pipeline := Pipeline_Create_result d i\<rparr>;
                s2 = do_calls [GraphicsPipelineBuilder_Create i, vkDestroyShaderModule vs_mod,
                               vkDestroyShaderModule fs_mod] s1
            in if pipeline stage' = VK_NULL_HANDLE
               then (False, only', clear_post_processing s2)
               else (True, only',
                     s2\<lparr>m_post_processing_stages := m_post_processing_stages s2 @ [stage']\<rparr>)))"

fun build_stages ::
  "driver \<Rightarrow> nat list \<Rightarrow> bool \<Rightarrow> VulkanHostDisplay \<Rightarrow> bool \<times> bool \<times> VulkanHostDisplay" where
  "build_stages d [] only_use_push_constants s = (True, only_use_push_constants, s)"
| "build_stages d (i # rest) only_use_push_constants s =
     (case build_stage d i only_use_push_constants s of
        (built, only', s1) \<Rightarrow>
          if built then build_stages d rest only' s1 else (False, only', s1))"

definition SetPostProcessingChain ::
  "driver \<Rightarrow> string \<Rightarrow> VulkanHostDisplay \<Rightarrow> bool \<times> VulkanHostDisplay" where
  "SetPostProcessingChain d config s =
     (let s0 = do_call (ExecuteCommandBuffer True) s
      in if config = [] then (True, clear_post_processing s0)
         else
           (let (parsed, chain) = CreateFromString_result d;
                s1 = (do_call (PostProcessingChain_CreateFromString config) s0)
                       \<lparr>m_post_processing_chain := chain\<rparr>
            in if \<not> parsed then (False, s1)
               else
                 (let s2 = clear_stages s1
                  in case build_stages d [0..<length (m_post_processing_chain s2)] True s2 of
                       (built, only_use_push_constants, s3) \<Rightarrow>
                         if \<not> built then (False, s3)
                         else if \<not> only_use_push_constants \<and>
                                 m_post_processing_ubo_size s3 < UBO_SIZE
                         then
                           (let s4 = do_call (StreamBuffer_Create UBO_SIZE) s3
                            in if \<not> StreamBuffer_Create_result d
                               then (False, clear_post_processing s4)
                               else (True,
                                     do_call Timer_Reset
                                       (s4\<lparr>m_post_processing_ubo_size := UBO_SIZE\<rparr>)))
                         else (True, do_call Timer_Reset s3))))"

subsection \<open>Observations on states and results\<close>


text \<open>The calls made on the way from state \<open>s\<close> to the later state \<open>s'\<close>.\<close>

definition new_calls :: "VulkanHostDisplay \<Rightarrow> VulkanHostDisplay \<Rightarrow> call list" where
  "new_calls s s' = drop (length (calls s)) (calls s')"

text \<open>The state a run of \<^verbatim>\<open>Render\<close> ends in, whether it returned or stopped in an error.\<close>

definition final_state :: "(bool \<times> VulkanHostDisplay) result \<Rightarrow> VulkanHostDisplay" where
  "final_state r = (case r of Inl (e, s) \<Rightarrow> s | Inr (b, s) \<Rightarrow> s)"

text \<open>The state a function that can stop in an error ends in, either way.\<close>

definition result_state :: "('a \<Rightarrow> VulkanHostDisplay) \<Rightarrow> 'a result \<Rightarrow> VulkanHostDisplay" where
  "result_state f r = (case r of Inl (e, s) \<Rightarrow> s | Inr x \<Rightarrow> f x)"

text \<open>
  \<open>adds_only P s s'\<close>: the later state \<open>s'\<close> has all the calls of \<open>s\<close>, in the same
  order, and every call made since satisfies \<open>P\<close>.
\<close>

definition adds_only ::
  "(call \<Rightarrow> bool) \<Rightarrow> VulkanHostDisplay \<Rightarrow> VulkanHostDisplay \<Rightarrow> bool" where
  "adds_only P s s' =
     (take (length (calls s)) (calls s') = calls s \<and> list_all P (new_calls s s'))"

text \<open>The calls that set up a render target.\<close>

fun target_setup :: "call \<Rightarrow> bool" where
  "target_setup (Texture_Create r w h f) = True"
| "target_setup (CreateFramebuffer r) = True"
| "target_setup (DeferFramebufferDestruction fb) = True"
| "target_setup c = False"

text \<open>The calls made while the commands of a frame are recorded.\<close>

fun recording :: "call \<Rightarrow> bool" where
  "recording (OverrideImageLayout t l) = True"
| "recording (TransitionToLayout t l) = True"
| "recording (Texture_Create r w h f) = True"
| "recording (CreateFramebuffer r) = True"
| "recording (DeferFramebufferDestruction fb) = True"
| "recording (vkCmdBeginRenderPass fb w h) = True"
| "recording vkCmdEndRenderPass = True"
| "recording (AllocateDescriptorSet site) = True"
| "recording (AddCombinedImageSamplerDescriptorWrite t) = True"
| "recording (vkCmdPushConstants n) = True"
| "recording (ReserveMemory n) = True"
| "recording (CommitMemory n) = True"
| "recording (vkCmdBindPipeline p) = True"
| "recording (SetViewportAndScissor x y w h) = True"
| "recording vkCmdDraw = True"
| "recording ImGui_Render = True"
| "recording ImGui_RenderDrawData = True"
| "recording c = False"

text \<open>
  The calls that make up a render pass: where it renders to, which texture it samples,
  which pipeline draws, the draw, and the end of the pass.
\<close>

fun pass_event :: "call \<Rightarrow> bool" where
  "pass_event (vkCmdBeginRenderPass fb w h) = True"
| "pass_event (AddCombinedImageSamplerDescriptorWrite t) = True"
| "pass_event (vkCmdBindPipeline p) = True"
| "pass_event vkCmdDraw = True"
| "pass_event vkCmdEndRenderPass = True"
| "pass_event c = False"

definition render_passes :: "call list \<Rightarrow> call list" where
  "render_passes cs = filter pass_event cs"

text \<open>
  The render passes as the specification describes them, to compare the code with:
  stage \<open>0\<close> reads the post-processing input texture and stage \<open>i + 1\<close> reads the output
  texture of stage \<open>i\<close>; every stage but the last renders into its own output framebuffer
  and ends its pass, the last one renders into the target framebuffer and leaves the
  pass open for the caller.
\<close>

definition claimed_stage_input :: "nat \<Rightarrow> tex_ref" where
  "claimed_stage_input i =
     (if i = 0 then post_processing_input_texture else stage_output_texture (i - 1))"

definition claimed_stage_pass ::
  "handle \<Rightarrow> u32 \<Rightarrow> u32 \<Rightarrow> PostProcessingStage list \<Rightarrow> nat \<Rightarrow> call list" where
  "claimed_stage_pass target_fb width height stages i =
     (if i \<noteq> length stages - 1
      then [vkCmdBeginRenderPass (output_framebuffer (stages ! i)) width height,
            AddCombinedImageSamplerDescriptorWrite (claimed_stage_input i),
            vkCmdBindPipeline (pipeline (stages ! i)),
            vkCmdDraw,
            vkCmdEndRenderPass]
      else [vkCmdBeginRenderPass target_fb width height,
            AddCombinedImageSamplerDescriptorWrite (claimed_stage_input i),
            vkCmdBindPipeline (pipeline (stages ! i)),
            vkCmdDraw])"

text \<open>
  The driver lets stage \<open>i\<close> of the display run: a descriptor set is allocated for it,
  and its uniforms fit the push-constant buffer or find room in the uniform buffer.
\<close>

definition stage_can_run :: "driver \<Rightarrow> VulkanHostDisplay \<Rightarrow> nat \<Rightarrow> bool" where
  "stage_can_run d s i =
     (AllocateDescriptorSet_result d (stage_ds i) \<noteq> VK_NULL_HANDLE \<and>
      (if UsePushConstants (m_post_processing_chain s ! i)
       then uniforms_size (m_post_processing_stages s ! i) \<le> PUSH_CONSTANT_SIZE_THRESHOLD d
       else ReserveMemory_result d i))"

text \<open>
  What checking the render targets leaves alone: the swap chain, the chain of shaders,
  the display pipeline, and the pipeline and uniform size of every stage.
\<close>

definition same_chain :: "VulkanHostDisplay \<Rightarrow> VulkanHostDisplay \<Rightarrow> bool" where
  "same_chain s s' =
     (m_swap_chain s' = m_swap_chain s \<and>
      m_post_processing_chain s' = m_post_processing_chain s \<and>
      m_display_pipeline s' = m_display_pipeline s \<and>
      map pipeline (m_post_processing_stages s') = map pipeline (m_post_processing_stages s) \<and>
      map uniforms_size (m_post_processing_stages s')
        = map uniforms_size (m_post_processing_stages s))"

subsection \<open>Concrete inputs\<close>

definition vma_ok :: "handle \<Rightarrow> vmaCreateBuffer_result" where
  "vma_ok h = \<lparr>res = VK_SUCCESS, buffer = h, allocation = h, pMappedData = h\<rparr>"

definition example_window :: WindowInfo where
  "example_window =
     \<lparr>type = X11, window_handle = 1, surface_width = 640, surface_height = 480\<rparr>"

definition example_swap_chain :: SwapChain where
  "example_swap_chain =
     \<lparr>GetWindowInfo = example_window, GetTextureFormat = VK_FORMAT_B8G8R8A8_UNORM,
      GetWidth = 640, GetHeight = 480, GetCurrentFramebuffer = 10, IsVSyncEnabled = True\<rparr>"

text \<open>A display with a window, a swap chain and its two pipelines, and nothing to show yet.\<close>

definition example_display :: VulkanHostDisplay where
  "example_display =
     new_display\<lparr>m_window_info := example_window, m_swap_chain := Some example_swap_chain,
                 m_display_pipeline := 20, m_cursor_pipeline := 21\<rparr>"

text \<open>
  The same display on a surface whose format is none of the six \<^verbatim>\<open>RenderScreenshot\<close>
  knows.
\<close>

definition deep_colour_display :: VulkanHostDisplay where
  "deep_colour_display =
     example_display
       \<lparr>m_swap_chain :=
          Some (example_swap_chain\<lparr>GetTextureFormat := VK_FORMAT_A2B10G10R10_UNORM_PACK32\<rparr>)\<rparr>"


text \<open>A Qualcomm device (vendor id \<open>0x5143\<close>) whose context was created with a swap chain.\<close>

definition adreno_context :: Context_Create_result where
  "adreno_context =
     \<lparr>created = True, out_wi = example_window, out_swap_chain = Some example_swap_chain,
      vendorID = 0x5143, driverID = 8\<rparr>"


text \<open>A driver on which every request succeeds.\<close>

definition example_driver :: driver where
  "example_driver =
     \<lparr>AllocateDescriptorSet_result = (\<lambda>site. 30),
      Texture_Create_result = (\<lambda>r. True),
      CreateFramebuffer_result = (\<lambda>r. case r of stage_output_texture i \<Rightarrow> 50 + i | _ \<Rightarrow> 40),
      ReserveMemory_result = (\<lambda>i. True),
      CalculateDrawRect = (\<lambda>w h. (0, 0, w, h)),
      CalculateSoftwareCursorDrawRect = (0, 0, 32, 32),
      ImGui_GetCurrentContext = True,
      GetClearRenderPass_result = 60,
      CalcUpdatePitch = (\<lambda>w. 4 * w),
      readback = (\<lambda>pixels. pixels),
      CreateFromString_result = (True, []),
      GetVertexShader_result = (\<lambda>i. 70 + i),
      GetFragmentShader_result = (\<lambda>i. 80 + i),
      Pipeline_Create_result = (\<lambda>i. 90 + i),
      StreamBuffer_Create_result = True,
      PUSH_CONSTANT_SIZE_THRESHOLD = 128\<rparr>"

text \<open>The swap chain loses its surface and the surface cannot be made again.\<close>

definition surface_lost_for_good :: swap_chain_answers where
  "surface_lost_for_good =
     \<lparr>AcquireNextImage_first = VK_ERROR_SURFACE_LOST_KHR,
      AcquireNextImage_retry = VK_SUCCESS,
      ResizeSwapChain_result = None,
      RecreateSurface_result = None\<rparr>"

text \<open>Three ways a frame can go after the first acquire has failed.\<close>

definition out_of_date_twice :: swap_chain_answers where
  "out_of_date_twice =
     \<lparr>AcquireNextImage_first = VK_ERROR_OUT_OF_DATE_KHR,
      AcquireNextImage_retry = VK_ERROR_OUT_OF_DATE_KHR,
      ResizeSwapChain_result = Some example_swap_chain,
      RecreateSurface_result = None\<rparr>"

definition resize_fails :: swap_chain_answers where
  "resize_fails =
     \<lparr>AcquireNextImage_first = VK_ERROR_OUT_OF_DATE_KHR,
      AcquireNextImage_retry = VK_SUCCESS,
      ResizeSwapChain_result = None,
      RecreateSurface_result = None\<rparr>"

definition surface_lost_then_device_lost :: swap_chain_answers where
  "surface_lost_then_device_lost =
     \<lparr>AcquireNextImage_first = VK_ERROR_SURFACE_LOST_KHR,
      AcquireNextImage_retry = VK_ERROR_DEVICE_LOST,
      ResizeSwapChain_result = None,
      RecreateSurface_result = Some example_swap_chain\<rparr>"

text \<open>Two shaders, one with push constants and one with a uniform buffer.\<close>

definition scanlines :: PostProcessingShader where
  "scanlines = \<lparr>GetName = ''scanlines'', UsePushConstants = True, GetUniformsSize = 16\<rparr>"

definition bloom :: PostProcessingShader where
  "bloom = \<lparr>GetName = ''bloom'', UsePushConstants = False, GetUniformsSize = 256\<rparr>"

text \<open>A display that shows a texture through a chain of these two stages.\<close>

definition two_stage_display :: VulkanHostDisplay where
  "two_stage_display =
     example_display
       \<lparr>m_display_texture := 5,
        m_post_processing_chain := [scanlines, bloom],
        m_post_processing_stages :=
          [PostProcessingStage_default\<lparr>pipeline := 90, uniforms_size := 16\<rparr>,
           PostProcessingStage_default\<lparr>pipeline := 91, uniforms_size := 256\<rparr>]\<rparr>"

text \<open>The same display once its render targets exist at 640 by 480.\<close>

definition two_stage_display_ready :: VulkanHostDisplay where
  "two_stage_display_ready =
     (do_calls
        [Texture_Create post_processing_input_texture 640 480 VK_FORMAT_B8G8R8A8_UNORM,
         CreateFramebuffer post_processing_input_texture,
         Texture_Create (stage_output_texture 0) 640 480 VK_FORMAT_B8G8R8A8_UNORM,
         CreateFramebuffer (stage_output_texture 0)] two_stage_display)
       \<lparr>m_post_processing_input_texture := \<lparr>tex_width = 640, tex_height = 480\<rparr>,
        m_post_processing_input_framebuffer := 40,
        m_post_processing_stages :=
          [\<lparr>pipeline = 90, output_framebuffer = 50,
            output_texture = \<lparr>tex_width = 640, tex_height = 480\<rparr>, uniforms_size = 16\<rparr>,
           PostProcessingStage_default\<lparr>pipeline := 91, uniforms_size := 256\<rparr>]\<rparr>"

text \<open>
  A driver that cannot create textures, one that cannot allocate descriptor sets either,
  and the state the display is left in when its render targets cannot be made.
\<close>

definition no_render_targets :: driver where
  "no_render_targets = example_driver\<lparr>Texture_Create_result := (\<lambda>r. False)\<rparr>"

definition no_descriptor_sets :: driver where
  "no_descriptor_sets = no_render_targets\<lparr>AllocateDescriptorSet_result := (\<lambda>site. 0)\<rparr>"

definition two_stage_display_unready :: VulkanHostDisplay where
  "two_stage_display_unready =
     do_call (Texture_Create post_processing_input_texture 640 480 VK_FORMAT_B8G8R8A8_UNORM)
       two_stage_display"

text \<open>
  A display with a stage list left from an earlier chain, a parser that rejects the new
  configuration and leaves the chain as it was, and a shader compiler that fails.
\<close>

definition stale_display :: VulkanHostDisplay where
  "stale_display =
     example_display
       \<lparr>m_post_processing_chain := [scanlines],
        m_post_processing_stages := [PostProcessingStage_default\<lparr>pipeline := 90\<rparr>]\<rparr>"

definition rejecting_parser :: driver where
  "rejecting_parser = example_driver\<lparr>CreateFromString_result := (False, [scanlines])\<rparr>"

definition failing_compiler :: driver where
  "failing_compiler =
     example_driver\<lparr>CreateFromString_result := (True, [scanlines, bloom]),
                    GetFragmentShader_result := (\<lambda>i. if i = 1 then 0 else 80 + i)\<rparr>"

section \<open>Properties\<close>

subsection \<open>Fullscreen\<close>

text \<open>
  Claim C9. The Vulkan display never supports exclusive fullscreen:
  \<^verbatim>\<open>SupportsFullscreen()\<close> and \<^verbatim>\<open>IsFullscreen()\<close> answer false, and
  \<^verbatim>\<open>SetFullscreen\<close> answers false for every combination of arguments and leaves the
  display as it was.
\<close>

theorem fullscreen_never_supported:
  "SupportsFullscreen s = False \<and> IsFullscreen s = False \<and>
   SetFullscreen fullscreen width height refresh_rate s = (False, s)"
  by (simp add: SupportsFullscreen_def IsFullscreen_def SetFullscreen_def)

subsection \<open>Changing the render window\<close>

text \<open>
  Claim C10. \<^verbatim>\<open>ChangeRenderWindow\<close> called with a window of type \<^verbatim>\<open>Surfaceless\<close>
  always succeeds: whatever the driver would answer, it returns true, no swap chain is
  left, the new window information is stored, \<^verbatim>\<open>HasRenderSurface()\<close> is false, and the
  only calls it makes wait for the GPU and execute the command buffer, so it attempts
  neither a surface nor a swap chain.
\<close>

theorem ChangeRenderWindow_surfaceless:
  assumes "type new_wi = Surfaceless"
  shows "\<exists>s'. ChangeRenderWindow recreated surface chain new_wi s = (True, s') \<and>
           m_swap_chain s' = None \<and> m_window_info s' = new_wi \<and>
           HasRenderSurface s' = False \<and>
           calls s' = calls s @ [WaitForGPUIdle, ExecuteCommandBuffer True]"
  using assms
  by (simp add: ChangeRenderWindow_def do_call_def HasRenderSurface_def Let_def)

theorem ChangeRenderWindow_surfaceless_witness:
  "type WindowInfo_default = Surfaceless \<and>
   (\<exists>s'. ChangeRenderWindow (Some example_swap_chain) (5, example_window)
            (Some example_swap_chain) WindowInfo_default example_display = (True, s') \<and>
          m_swap_chain s' = None \<and> m_window_info s' = WindowInfo_default \<and>
          HasRenderSurface s' = False \<and>
          calls s' = calls example_display @ [WaitForGPUIdle, ExecuteCommandBuffer True])"
proof -
  have h: "type WindowInfo_default = Surfaceless"
    by (simp add: WindowInfo_default_def)
  show ?thesis
    using h ChangeRenderWindow_surfaceless [OF h, of "Some example_swap_chain"
        "(5, example_window)" "Some example_swap_chain" example_display]
    by simp
qed

subsection \<open>Window information and swap chain stay in step\<close>










subsection \<open>Losing the surface during a frame\<close>

text \<open>
  Claim C2. In \<^verbatim>\<open>Render\<close> (with a swap chain and without \<^verbatim>\<open>skip_present\<close>), if the
  acquire fails with \<^verbatim>\<open>VK_ERROR_SURFACE_LOST_KHR\<close> and recreating the surface fails as
  well, then the current command buffer is executed, the swap chain is destroyed, so
  that \<^verbatim>\<open>HasRenderSurface()\<close> is false afterwards, and \<^verbatim>\<open>Render\<close> returns false. The
  calls made are exactly: wait for the previous present, acquire, recreate the surface
  for \<^verbatim>\<open>m_window_info\<close>, execute the command buffer without waiting.
\<close>

theorem Render_surface_lost_recreate_fails:
  assumes "\<not> skip_present"
    and "m_swap_chain s = Some sc"
    and "AcquireNextImage_first a = VK_ERROR_SURFACE_LOST_KHR"
    and "RecreateSurface_result a = None"
  shows "\<exists>s'. Render a d skip_present s = Inr (False, s') \<and>
           m_swap_chain s' = None \<and> HasRenderSurface s' = False \<and>
           calls s' = calls s @ [WaitForPresentComplete, AcquireNextImage,
                                 RecreateSurface (m_window_info s),
                                 ExecuteCommandBuffer False]"
  using assms
  by (simp add: Render_def Let_def do_call_def do_calls_def HasRenderSurface_def)

theorem Render_surface_lost_recreate_fails_witness:
  "m_swap_chain example_display = Some example_swap_chain \<and>
   AcquireNextImage_first surface_lost_for_good = VK_ERROR_SURFACE_LOST_KHR \<and>
   RecreateSurface_result surface_lost_for_good = None \<and>
   (\<exists>s'. Render surface_lost_for_good example_driver False example_display = Inr (False, s') \<and>
          m_swap_chain s' = None \<and> HasRenderSurface s' = False \<and>
          calls s' = calls example_display @
                       [WaitForPresentComplete, AcquireNextImage,
                        RecreateSurface (m_window_info example_display),
                        ExecuteCommandBuffer False])"
proof -
  have h1: "\<not> False" by simp
  have h2: "m_swap_chain example_display = Some example_swap_chain"
    by (simp add: example_display_def)
  have h3: "AcquireNextImage_first surface_lost_for_good = VK_ERROR_SURFACE_LOST_KHR"
    by (simp add: surface_lost_for_good_def)
  have h4: "RecreateSurface_result surface_lost_for_good = None"
    by (simp add: surface_lost_for_good_def)
  show ?thesis
    using h2 h3 h4 Render_surface_lost_recreate_fails [OF h1 h2 h3 h4, of example_driver]
    by simp
qed

subsection \<open>The readback staging buffer\<close>

text \<open>
  Claim C3. When \<^verbatim>\<open>CheckStagingBufferSize\<close> allocates a new staging buffer (the size
  it has on record is below the requested one), on a display whose \<^verbatim>\<open>m_is_adreno\<close> is
  the one a successful \<^verbatim>\<open>CreateRenderDevice\<close> has set, its last call is
  \<^verbatim>\<open>vmaCreateBuffer\<close> for the requested size, and the preferred flags are
  \<^verbatim>\<open>HOST_CACHED | HOST_COHERENT\<close> exactly when the vendor id is \<open>0x5143\<close> or the
  driver id is \<^verbatim>\<open>VK_DRIVER_ID_QUALCOMM_PROPRIETARY\<close>, and \<^verbatim>\<open>HOST_CACHED\<close> alone
  exactly when neither is.
\<close>

theorem CheckStagingBufferSize_preferred_flags:
  assumes "CreateRenderDevice ctx wi s0 = (True, s1)"
    and "m_is_adreno s = m_is_adreno s1"
    and "m_readback_staging_buffer_size s < required_size"
  shows "\<exists>flags.
           last (calls (snd (CheckStagingBufferSize vma required_size s))) =
             vmaCreateBuffer required_size flags \<and>
           (flags = (VK_MEMORY_PROPERTY_HOST_CACHED_BIT OR VK_MEMORY_PROPERTY_HOST_COHERENT_BIT)
              \<longleftrightarrow> (vendorID ctx = 0x5143 \<or> driverID ctx = VK_DRIVER_ID_QUALCOMM_PROPRIETARY)) \<and>
           (flags = VK_MEMORY_PROPERTY_HOST_CACHED_BIT
              \<longleftrightarrow> \<not> (vendorID ctx = 0x5143 \<or> driverID ctx = VK_DRIVER_ID_QUALCOMM_PROPRIETARY))"
proof -
  have adreno: "m_is_adreno s1 =
      (vendorID ctx = 0x5143 \<or> driverID ctx = VK_DRIVER_ID_QUALCOMM_PROPRIETARY)"
    using assms(1)
    by (auto simp add: CreateRenderDevice_def Let_def do_call_def split: if_splits)
  have keep: "m_is_adreno (DestroyStagingBuffer s) = m_is_adreno s"
    by (simp add: DestroyStagingBuffer_def do_call_def)
  have distinct: "(VK_MEMORY_PROPERTY_HOST_CACHED_BIT OR VK_MEMORY_PROPERTY_HOST_COHERENT_BIT)
      \<noteq> VK_MEMORY_PROPERTY_HOST_CACHED_BIT"
    by (simp add: VK_MEMORY_PROPERTY_HOST_CACHED_BIT_def VK_MEMORY_PROPERTY_HOST_COHERENT_BIT_def)
  have nle: "\<not> required_size \<le> m_readback_staging_buffer_size s"
    using assms(3) by simp
  show ?thesis
    using adreno keep distinct nle assms(2)
    by (auto simp add: CheckStagingBufferSize_def Let_def do_call_def)
qed

theorem CheckStagingBufferSize_preferred_flags_witness:
  "fst (CreateRenderDevice adreno_context example_window new_display) = True \<and>
   m_readback_staging_buffer_size
     (snd (CreateRenderDevice adreno_context example_window new_display)) < 100 \<and>
   (\<exists>flags.
      last (calls (snd (CheckStagingBufferSize (vma_ok 1) 100
                          (snd (CreateRenderDevice adreno_context example_window new_display)))))
        = vmaCreateBuffer 100 flags \<and>
      flags = (VK_MEMORY_PROPERTY_HOST_CACHED_BIT OR VK_MEMORY_PROPERTY_HOST_COHERENT_BIT))"
proof -
  have h1: "CreateRenderDevice adreno_context example_window new_display =
              (True, snd (CreateRenderDevice adreno_context example_window new_display))"
    by (simp add: CreateRenderDevice_def adreno_context_def Let_def)
  have h3: "m_readback_staging_buffer_size
              (snd (CreateRenderDevice adreno_context example_window new_display)) < 100"
    by (simp add: CreateRenderDevice_def adreno_context_def new_display_def do_call_def Let_def)
  have v: "vendorID adreno_context = 0x5143"
    by (simp add: adreno_context_def)
  have f: "fst (CreateRenderDevice adreno_context example_window new_display) = True"
    by (simp add: CreateRenderDevice_def adreno_context_def Let_def)
  show ?thesis
    using f h3 v CheckStagingBufferSize_preferred_flags [OF h1 refl h3, of "vma_ok 1"]
    by auto
qed

lemma CheckStagingBufferSize_size_never_grows:
  "m_readback_staging_buffer_size (snd (CheckStagingBufferSize vma required_size s))
     \<le> m_readback_staging_buffer_size s"
  by (simp add: CheckStagingBufferSize_def DestroyStagingBuffer_def Let_def do_call_def)

text \<open>
  Claim C7 says that the staging buffer is never shrunk: a buffer whose size covers the
  request is left untouched. The code compares the request with
  \<^verbatim>\<open>m_readback_staging_buffer_size\<close>, which \<^verbatim>\<open>DestroyStagingBuffer\<close> sets to zero and
  which nothing ever sets to the size of a buffer just made (the lemma above: the
  recorded size never grows). On a new display, the download of a 64 by 64 texture
  (pitch 256, so 16384 bytes) followed by the download of a 32 by 32 texture (pitch 128,
  so 4096 bytes) makes a buffer of 16384 bytes, destroys it, and makes one of 4096
  bytes; the size on record after the first download is still zero.
\<close>

theorem DownloadTexture_shrinks_staging_buffer:
  "calls (DownloadTexture_calls [(vma_ok 1, 256, 64, 64), (vma_ok 2, 128, 32, 32)] new_display) =
     [vmaCreateBuffer 16384 VK_MEMORY_PROPERTY_HOST_CACHED_BIT,
      vkCmdCopyImageToBuffer screenshot_texture 1,
      ExecuteCommandBuffer True,
      vmaInvalidateAllocation 1 16384,
      vmaDestroyBuffer 1 1,
      vmaCreateBuffer 4096 VK_MEMORY_PROPERTY_HOST_CACHED_BIT,
      vkCmdCopyImageToBuffer screenshot_texture 2,
      ExecuteCommandBuffer True,
      vmaInvalidateAllocation 2 4096] \<and>
   m_readback_staging_buffer_size
     (DownloadTexture_calls [(vma_ok 1, 256, 64, 64)] new_display) = 0 \<and>
   fst (DownloadTexture (vma_ok 2) 128 screenshot_texture 32 32
          (DownloadTexture_calls [(vma_ok 1, 256, 64, 64)] new_display)) = True"
  by (simp add: DownloadTexture_def CheckStagingBufferSize_def DestroyStagingBuffer_def
        new_display_def vma_ok_def do_call_def Let_def VK_NULL_HANDLE_def)

subsection \<open>Screenshots without a swap chain or without a display texture\<close>

text \<open>
  Claim C4 says that without a display texture the pixel vector is sized for the
  swap-chain format before it is filled with zeros. The \<^verbatim>\<open>switch\<close> sizes it for six
  formats only. On a swap chain of format \<^verbatim>\<open>VK_FORMAT_A2B10G10R10_UNORM_PACK32\<close> a
  screenshot of 2 by 3 pixels into an empty vector returns true and leaves the vector
  empty, and the stride and the format as the caller passed them.
\<close>

theorem RenderScreenshot_unknown_format_not_sized:
  "RenderScreenshot example_driver (vma_ok 1) 2 3 ([], 0, Format_Unknown) deep_colour_display =
     Inr (True, ([], 0, Format_Unknown), deep_colour_display)"
  by (simp add: RenderScreenshot_def HasDisplayTexture_def deep_colour_display_def
        example_display_def new_display_def example_swap_chain_def Let_def)

text \<open>
  Claim C4, amended. \<^verbatim>\<open>RenderScreenshot\<close> returns false whenever no swap chain exists,
  and touches nothing. When a swap chain exists but there is no display texture, it
  returns true, makes no call at all (the state is the one it started in, so nothing is
  rendered), and leaves a pixel vector that is zero everywhere. For the four 32-bit
  formats the vector has been sized to \<^verbatim>\<open>width * height\<close> elements, for the two 16-bit
  formats to \<^verbatim>\<open>(width * height + 1) / 2\<close> elements, the products taken in 32 bits. For
  any other swap-chain format the vector is not sized: it keeps its length, and the
  stride and the format are left as they came in.
\<close>

theorem RenderScreenshot_without_display_texture:
  "(m_swap_chain s = None \<longrightarrow> RenderScreenshot d vma width height out s = Inr (False, out, s)) \<and>
   (m_swap_chain s = Some sc \<and> \<not> HasDisplayTexture s \<longrightarrow>
      (\<exists>pixels stride fmt.
         RenderScreenshot d vma width height out s = Inr (True, (pixels, stride, fmt), s) \<and>
         pixels = replicate (length pixels) 0 \<and>
         (GetTextureFormat sc \<in> {VK_FORMAT_R8G8B8A8_UNORM, VK_FORMAT_R8G8B8A8_SRGB,
                                 VK_FORMAT_B8G8R8A8_UNORM, VK_FORMAT_B8G8R8A8_SRGB}
            \<longrightarrow> length pixels = unat (width * height)) \<and>
         (GetTextureFormat sc \<in> {VK_FORMAT_A1R5G5B5_UNORM_PACK16, VK_FORMAT_R5G6B5_UNORM_PACK16}
            \<longrightarrow> length pixels = unat ((width * height + 1) div 2)) \<and>
         (GetTextureFormat sc \<notin> {VK_FORMAT_R8G8B8A8_UNORM, VK_FORMAT_R8G8B8A8_SRGB,
                                 VK_FORMAT_B8G8R8A8_UNORM, VK_FORMAT_B8G8R8A8_SRGB,
                                 VK_FORMAT_A1R5G5B5_UNORM_PACK16, VK_FORMAT_R5G6B5_UNORM_PACK16}
            \<longrightarrow> length pixels = length (fst out) \<and> stride = fst (snd out) \<and>
                fmt = snd (snd out))))"
proof -
  obtain op os of' where out: "out = (op, os, of')" by (cases out) auto
  show ?thesis
    unfolding out
    by (cases "GetTextureFormat sc")
       (auto simp add: RenderScreenshot_def Let_def resize_def split: prod.splits)
qed

theorem RenderScreenshot_without_display_texture_witness:
  "m_swap_chain new_display = None \<and>
   m_swap_chain example_display = Some example_swap_chain \<and>
   \<not> HasDisplayTexture example_display \<and>
   GetTextureFormat example_swap_chain = VK_FORMAT_B8G8R8A8_UNORM \<and>
   RenderScreenshot example_driver (vma_ok 1) 2 3 ([7, 7], 0, Format_Unknown) new_display
     = Inr (False, ([7, 7], 0, Format_Unknown), new_display) \<and>
   RenderScreenshot example_driver (vma_ok 1) 2 3 ([7, 7], 0, Format_Unknown) example_display
     = Inr (True, ([0, 0, 0, 0, 0, 0], 8, BGRA8), example_display) \<and>
   RenderScreenshot example_driver (vma_ok 1) 2 3 ([7, 7], 0, Format_Unknown)
     deep_colour_display
     = Inr (True, ([0, 0], 0, Format_Unknown), deep_colour_display)"
proof -
  have h1: "m_swap_chain new_display = None"
    by (simp add: new_display_def)
  have h2: "m_swap_chain example_display = Some example_swap_chain"
    by (simp add: example_display_def)
  have h3: "\<not> HasDisplayTexture example_display"
    by (simp add: HasDisplayTexture_def example_display_def new_display_def)
  have h4: "GetTextureFormat example_swap_chain = VK_FORMAT_B8G8R8A8_UNORM"
    by (simp add: example_swap_chain_def)
  have r6: "replicate 6 (0::u32) = [0, 0, 0, 0, 0, 0]"
    by (simp add: numeral_eq_Suc)
  have e: "RenderScreenshot example_driver (vma_ok 1) 2 3 ([7, 7], 0, Format_Unknown)
             example_display = Inr (True, ([0, 0, 0, 0, 0, 0], 8, BGRA8), example_display)"
    using h2 h3 h4 by (simp add: RenderScreenshot_def Let_def resize_def r6)
  have h5: "m_swap_chain deep_colour_display =
      Some (example_swap_chain\<lparr>GetTextureFormat := VK_FORMAT_A2B10G10R10_UNORM_PACK32\<rparr>)"
    "\<not> HasDisplayTexture deep_colour_display"
    by (simp_all add: deep_colour_display_def HasDisplayTexture_def example_display_def
          new_display_def)
  have r2: "replicate 2 (0::u32) = [0, 0]"
    by (simp add: numeral_eq_Suc)
  have e': "RenderScreenshot example_driver (vma_ok 1) 2 3 ([7, 7], 0, Format_Unknown)
             deep_colour_display = Inr (True, ([0, 0], 0, Format_Unknown), deep_colour_display)"
    using h5 by (simp add: RenderScreenshot_def Let_def r2)
  show ?thesis
    using h1 h2 h3 h4 h5 e e'
      RenderScreenshot_without_display_texture [where s = deep_colour_display
        and d = example_driver and vma = "vma_ok 1" and width = 2 and height = 3
        and out = "([7, 7], 0, Format_Unknown)"
        and sc = "example_swap_chain\<lparr>GetTextureFormat := VK_FORMAT_A2B10G10R10_UNORM_PACK32\<rparr>"]
      RenderScreenshot_without_display_texture [where s = new_display and d = example_driver
        and vma = "vma_ok 1" and width = 2 and height = 3
        and out = "([7, 7], 0, Format_Unknown)" and sc = example_swap_chain]
      RenderScreenshot_without_display_texture [where s = example_display and d = example_driver
        and vma = "vma_ok 1" and width = 2 and height = 3
        and out = "([7, 7], 0, Format_Unknown)" and sc = example_swap_chain]
    by simp
qed

subsection \<open>Which calls a function adds\<close>

lemma new_calls_append:
  "calls s' = calls s @ cs \<Longrightarrow> new_calls s s' = cs"
  by (simp add: new_calls_def)

lemma adds_only_iff:
  "adds_only P s s' \<longleftrightarrow> (\<exists>cs. calls s' = calls s @ cs \<and> list_all P cs)"
proof
  assume "adds_only P s s'"
  then have "calls s' = calls s @ new_calls s s'" "list_all P (new_calls s s')"
    unfolding adds_only_def new_calls_def
    by (metis append_take_drop_id, simp)
  then show "\<exists>cs. calls s' = calls s @ cs \<and> list_all P cs" by blast
next
  assume "\<exists>cs. calls s' = calls s @ cs \<and> list_all P cs"
  then show "adds_only P s s'"
    by (auto simp add: adds_only_def new_calls_def)
qed

lemma adds_only_refl: "adds_only P s s"
  by (simp add: adds_only_iff)

lemma adds_only_trans:
  "adds_only P s s1 \<Longrightarrow> adds_only P s1 s2 \<Longrightarrow> adds_only P s s2"
  by (auto simp add: adds_only_iff)

lemma adds_only_calls_eq:
  "adds_only P s s1 \<Longrightarrow> calls s2 = calls s1 \<Longrightarrow> adds_only P s s2"
  by (simp add: adds_only_iff)

lemma adds_only_mono:
  "adds_only P s s' \<Longrightarrow> (\<And>c. P c \<Longrightarrow> Q c) \<Longrightarrow> adds_only Q s s'"
  by (auto simp add: adds_only_iff list_all_iff)

lemma adds_only_do_call:
  "P c \<Longrightarrow> adds_only P s (do_call c s)"
  by (simp add: adds_only_iff do_call_def)

lemma adds_only_do_calls:
  "list_all P cs \<Longrightarrow> adds_only P s (do_calls cs s)"
  by (simp add: adds_only_iff do_calls_def)

lemma target_setup_recording: "target_setup c \<Longrightarrow> recording c"
  by (cases c) simp_all

lemma target_setup_no_pass: "target_setup c \<Longrightarrow> \<not> pass_event c"
  by (cases c) simp_all

lemma RenderDisplay_texture_records:
  "adds_only recording s (RenderDisplay_texture d l t w h tex s)"
  by (simp add: RenderDisplay_texture_def Let_def adds_only_iff do_call_def do_calls_def)

lemma RenderSoftwareCursor_records:
  "adds_only recording s (RenderSoftwareCursor d s)"
  by (simp add: RenderSoftwareCursor_def RenderSoftwareCursor_texture_def Let_def
        adds_only_iff do_call_def do_calls_def split: prod.splits)

lemma RenderImGui_records:
  "adds_only recording s (RenderImGui s)"
  by (simp add: RenderImGui_def adds_only_iff do_calls_def)

lemma BeginSwapChainRenderPass_records:
  "adds_only recording s (result_state id (BeginSwapChainRenderPass fb w h s))"
  by (simp add: BeginSwapChainRenderPass_def result_state_def adds_only_iff do_call_def
        split: option.splits)

lemma check_render_target_sets_up:
  "adds_only target_setup s
     (result_state (\<lambda>(ok, t, fb, s'). s') (check_render_target d r w h t fb s))"
  by (simp add: check_render_target_def result_state_def adds_only_iff do_call_def Let_def
        split: option.splits)

lemma check_stage_output_sets_up:
  "adds_only target_setup s (result_state snd (check_stage_output d w h i s))"
  using check_render_target_sets_up [of s d "stage_output_texture i" w h
      "output_texture (m_post_processing_stages s ! i)"
      "output_framebuffer (m_post_processing_stages s ! i)"]
  by (auto simp add: check_stage_output_def result_state_def adds_only_iff Let_def
        split: sum.splits prod.splits)

lemma check_stage_outputs_sets_up:
  "adds_only target_setup s (result_state snd (check_stage_outputs d w h is s))"
proof (induction "is" arbitrary: s)
  case Nil
  then show ?case by (simp add: result_state_def adds_only_refl)
next
  case (Cons i rest)
  have step: "adds_only target_setup s (result_state snd (check_stage_output d w h i s))"
    by (rule check_stage_output_sets_up)
  show ?case
  proof (cases "check_stage_output d w h i s")
    case (Inl e)
    with step show ?thesis by (simp add: result_state_def)
  next
    case (Inr p)
    obtain ok s1 where p: "p = (ok, s1)" by (cases p) auto
    from step Inr p have s1: "adds_only target_setup s s1" by (simp add: result_state_def)
    show ?thesis
    proof (cases ok)
      case True
      with Inr p have "check_stage_outputs d w h (i # rest) s = check_stage_outputs d w h rest s1"
        by simp
      with adds_only_trans [OF s1 Cons.IH [of s1]] show ?thesis by simp
    next
      case False
      with Inr p s1 show ?thesis by (simp add: result_state_def)
    qed
  qed
qed

lemma CheckPostProcessingRenderTargets_sets_up:
  "adds_only target_setup s (result_state snd (CheckPostProcessingRenderTargets d w h s))"
proof (cases "m_post_processing_stages s = []")
  case True
  then show ?thesis
    by (simp add: CheckPostProcessingRenderTargets_def result_state_def adds_only_refl)
next
  case False
  have step: "adds_only target_setup s (result_state (\<lambda>(ok, t, fb, s'). s')
      (check_render_target d post_processing_input_texture w h
         (m_post_processing_input_texture s) (m_post_processing_input_framebuffer s) s))"
    by (rule check_render_target_sets_up)
  show ?thesis
  proof (cases "check_render_target d post_processing_input_texture w h
         (m_post_processing_input_texture s) (m_post_processing_input_framebuffer s) s")
    case (Inl e)
    with step False show ?thesis
      by (simp add: CheckPostProcessingRenderTargets_def result_state_def)
  next
    case (Inr p)
    obtain ok t fb s1 where p: "p = (ok, t, fb, s1)" by (cases p) auto
    define s2 where "s2 = s1\<lparr>m_post_processing_input_texture := t,
                          m_post_processing_input_framebuffer := fb\<rparr>"
    from step Inr p have "adds_only target_setup s s1" by (simp add: result_state_def)
    then have s2: "adds_only target_setup s s2"
      by (rule adds_only_calls_eq) (simp add: s2_def)
    have "adds_only target_setup s2 (result_state snd
            (check_stage_outputs d w h [0..<length (m_post_processing_stages s2) - 1] s2))"
      by (rule check_stage_outputs_sets_up)
    with s2 have "adds_only target_setup s (result_state snd
            (check_stage_outputs d w h [0..<length (m_post_processing_stages s2) - 1] s2))"
      by (rule adds_only_trans)
    with s2 Inr p False show ?thesis
      by (simp add: CheckPostProcessingRenderTargets_def result_state_def Let_def s2_def)
  qed
qed

lemma CheckPostProcessingRenderTargets_records:
  "adds_only recording s (result_state snd (CheckPostProcessingRenderTargets d w h s))"
  using CheckPostProcessingRenderTargets_sets_up target_setup_recording
  by (rule adds_only_mono)

lemma apply_stage_records:
  "adds_only recording s (result_state (\<lambda>(continue, t, s'). s')
     (apply_stage d target_fb w h final i tex s))"
  by (simp add: apply_stage_def BeginSwapChainRenderPass_def result_state_def adds_only_iff
        do_call_def do_calls_def Let_def split: option.splits)

lemma apply_stages_records:
  "adds_only recording s (result_state id (apply_stages d target_fb w h final is tex s))"
proof (induction "is" arbitrary: tex s)
  case Nil
  then show ?case by (simp add: result_state_def adds_only_refl)
next
  case (Cons i rest)
  have step: "adds_only recording s (result_state (\<lambda>(continue, t, s'). s')
      (apply_stage d target_fb w h final i tex s))"
    by (rule apply_stage_records)
  show ?case
  proof (cases "apply_stage d target_fb w h final i tex s")
    case (Inl e)
    with step show ?thesis by (simp add: result_state_def)
  next
    case (Inr p)
    obtain continue t s1 where p: "p = (continue, t, s1)" by (cases p) auto
    from step Inr p have s1: "adds_only recording s s1" by (simp add: result_state_def)
    show ?thesis
    proof (cases continue)
      case True
      with Inr p have "apply_stages d target_fb w h final (i # rest) tex s =
          apply_stages d target_fb w h final rest t s1"
        by simp
      with adds_only_trans [OF s1 Cons.IH [of s1 t]] show ?thesis by simp
    next
      case False
      with Inr p s1 show ?thesis by (simp add: result_state_def)
    qed
  qed
qed

lemma begin_then_display_records:
  "adds_only recording s (result_state id
     (case BeginSwapChainRenderPass fb tw th s of
        Inl e \<Rightarrow> Inl e
      | Inr s2 \<Rightarrow> Inr (RenderDisplay_texture d l t w h tex s2)))"
  using BeginSwapChainRenderPass_records [of s fb tw th]
  by (auto simp add: result_state_def split: sum.splits
        intro: adds_only_trans RenderDisplay_texture_records)

lemma ApplyPostProcessingChain_records:
  "adds_only recording s (result_state id
     (ApplyPostProcessingChain d target_fb l t w h tex tw th s))"
proof (cases "CheckPostProcessingRenderTargets d tw th s")
  case (Inl e)
  with CheckPostProcessingRenderTargets_records [of s d tw th] show ?thesis
    by (simp add: ApplyPostProcessingChain_def result_state_def)
next
  case (Inr p)
  obtain ok s1 where p: "p = (ok, s1)" by (cases p) auto
  from CheckPostProcessingRenderTargets_records [of s d tw th] Inr p
  have s1: "adds_only recording s s1" by (simp add: result_state_def)
  show ?thesis
  proof (cases ok)
    case False
    from s1 begin_then_display_records [where s = s1 and fb = target_fb and tw = tw
        and th = th and d = d and l = l and t = t and w = w and h = h and tex = tex]
    have "adds_only recording s (result_state id
        (case BeginSwapChainRenderPass target_fb tw th s1 of
           Inl e \<Rightarrow> Inl e
         | Inr s2 \<Rightarrow> Inr (RenderDisplay_texture d l t w h tex s2)))"
      by (rule adds_only_trans)
    with Inr p False show ?thesis
      by (simp add: ApplyPostProcessingChain_def)
  next
    case True
    define s2 where "s2 = do_call (TransitionToLayout post_processing_input_texture
                                 VK_IMAGE_LAYOUT_COLOR_ATTACHMENT_OPTIMAL) s1"
    have "adds_only recording s1 s2" unfolding s2_def by (rule adds_only_do_call) simp
    with s1 have s2: "adds_only recording s s2" by (rule adds_only_trans)
    show ?thesis
    proof (cases "BeginSwapChainRenderPass (m_post_processing_input_framebuffer s2) tw th s2")
      case (Inl e)
      with BeginSwapChainRenderPass_records [of s2 "m_post_processing_input_framebuffer s2" tw th]
      have "adds_only recording s2 (result_state id (Inl e :: VulkanHostDisplay result))"
        by simp
      with s2 have "adds_only recording s (result_state id (Inl e :: VulkanHostDisplay result))"
        by (rule adds_only_trans)
      with \<open>CheckPostProcessingRenderTargets d tw th s = Inr p\<close> p True Inl show ?thesis
        by (simp add: ApplyPostProcessingChain_def Let_def s2_def)
    next
      case (Inr s3)
      define s4 where "s4 = RenderDisplay_texture d l t w h tex s3"
      define s5 where "s5 = do_calls [vkCmdEndRenderPass,
                                 TransitionToLayout post_processing_input_texture
                                   VK_IMAGE_LAYOUT_SHADER_READ_ONLY_OPTIMAL] s4"
      from BeginSwapChainRenderPass_records [of s2 "m_post_processing_input_framebuffer s2" tw th]
        Inr
      have "adds_only recording s2 s3" by (simp add: result_state_def)
      with s2 have s3: "adds_only recording s s3" by (rule adds_only_trans)
      have "adds_only recording s3 s4" unfolding s4_def by (rule RenderDisplay_texture_records)
      with s3 have s4: "adds_only recording s s4" by (rule adds_only_trans)
      have "adds_only recording s4 s5" unfolding s5_def by (rule adds_only_do_calls) simp
      with s4 have s5: "adds_only recording s s5" by (rule adds_only_trans)
      have "adds_only recording s5 (result_state id
          (apply_stages d target_fb tw th (length (m_post_processing_stages s5) - 1)
             [0..<length (m_post_processing_stages s5)] post_processing_input_texture s5))"
        by (rule apply_stages_records)
      with s5 have "adds_only recording s (result_state id
          (apply_stages d target_fb tw th (length (m_post_processing_stages s5) - 1)
             [0..<length (m_post_processing_stages s5)] post_processing_input_texture s5))"
        by (rule adds_only_trans)
      with \<open>CheckPostProcessingRenderTargets d tw th s = Inr p\<close> p True Inr show ?thesis
        by (simp add: ApplyPostProcessingChain_def Let_def s2_def s4_def s5_def)
    qed
  qed
qed

lemma RenderDisplay_records:
  "adds_only recording s (result_state id (RenderDisplay d s))"
proof (cases "m_swap_chain s")
  case None
  then show ?thesis by (simp add: RenderDisplay_def result_state_def adds_only_refl)
next
  case (Some sc)
  obtain l t w h where r: "CalculateDrawRect d (GetWindowWidth s) (GetWindowHeight s) = (l, t, w, h)"
    by (cases "CalculateDrawRect d (GetWindowWidth s) (GetWindowHeight s)") auto
  show ?thesis
    using Some r begin_then_display_records BeginSwapChainRenderPass_records
      ApplyPostProcessingChain_records
    by (simp add: RenderDisplay_def)
qed

lemma Render_present_calls:
  "\<exists>cs. calls (final_state (Render_present d s)) = calls s @ cs \<and> AcquireNextImage \<notin> set cs"
proof (cases "m_swap_chain s")
  case None
  then show ?thesis by (simp add: Render_present_def final_state_def)
next
  case (Some sc0)
  define s1 where "s1 = do_calls
                      [OverrideImageLayout swap_chain_texture VK_IMAGE_LAYOUT_UNDEFINED,
                       TransitionToLayout swap_chain_texture
                         VK_IMAGE_LAYOUT_COLOR_ATTACHMENT_OPTIMAL] s"
  have s1: "adds_only recording s s1" unfolding s1_def by (rule adds_only_do_calls) simp
  have rd: "adds_only recording s1 (result_state id (RenderDisplay d s1))"
    by (rule RenderDisplay_records)
  have no: "AcquireNextImage \<notin> set cs" if "list_all recording cs" for cs
    using that by (auto simp add: list_all_iff)
  show ?thesis
  proof (cases "RenderDisplay d s1")
    case (Inl e)
    obtain err se where e: "e = (err, se)" by (cases e) auto
    from rd Inl e have "adds_only recording s1 se" by (simp add: result_state_def)
    with s1 have "adds_only recording s se" by (rule adds_only_trans)
    then obtain cs where "calls se = calls s @ cs" "list_all recording cs"
      by (auto simp add: adds_only_iff)
    with no [of cs] Some Inl e show ?thesis
      by (simp add: Render_present_def final_state_def Let_def s1_def)
  next
    case (Inr s2)
    define s3 where "s3 = (if ImGui_GetCurrentContext d then RenderImGui s2 else s2)"
    define s4 where "s4 = RenderSoftwareCursor d s3"
    define s5 where "s5 = do_calls
                              [vkCmdEndRenderPass,
                               TransitionToLayout swap_chain_texture
                                 VK_IMAGE_LAYOUT_PRESENT_SRC_KHR] s4"
    from rd Inr have "adds_only recording s1 s2" by (simp add: result_state_def)
    with s1 have s2: "adds_only recording s s2" by (rule adds_only_trans)
    have "adds_only recording s2 s3"
      unfolding s3_def by (simp add: RenderImGui_records adds_only_refl)
    with s2 have s3: "adds_only recording s s3" by (rule adds_only_trans)
    have "adds_only recording s3 s4" unfolding s4_def by (rule RenderSoftwareCursor_records)
    with s3 have s4: "adds_only recording s s4" by (rule adds_only_trans)
    have "adds_only recording s4 s5" unfolding s5_def by (rule adds_only_do_calls) simp
    with s4 have s5: "adds_only recording s s5" by (rule adds_only_trans)
    then obtain cs where cs: "calls s5 = calls s @ cs" "list_all recording cs"
      by (auto simp add: adds_only_iff)
    have fin: "final_state (Render_present d s) =
        (case m_swap_chain s5 of
           None \<Rightarrow> s5
         | Some sc \<Rightarrow> do_calls [SubmitCommandBuffer (\<not> IsVSyncEnabled sc),
                                         MoveToNextCommandBuffer] s5)"
      using Some Inr
      by (simp add: Render_present_def final_state_def Let_def s1_def s3_def s4_def s5_def
            split: option.splits)
    show ?thesis
      using no [of cs] cs unfolding fin
      by (auto simp add: do_calls_def split: option.splits)
  qed
qed

lemma Render_acquired_calls:
  "\<exists>rest. calls (final_state (Render_acquired d r s)) = calls s @ rest \<and>
          AcquireNextImage \<notin> set rest \<and>
          (r \<notin> {VK_SUCCESS, VK_SUBOPTIMAL_KHR} \<longrightarrow>
             rest = [ExecuteCommandBuffer False] \<and>
             Render_acquired d r s = Inr (False, do_call (ExecuteCommandBuffer False) s))"
proof (cases "r \<noteq> VK_SUCCESS \<and> r \<noteq> VK_SUBOPTIMAL_KHR")
  case True
  then show ?thesis
    by (simp add: Render_acquired_def final_state_def do_call_def)
next
  case False
  then have "Render_acquired d r s = Render_present d s"
    by (auto simp add: Render_acquired_def)
  with Render_present_calls [of d s] False show ?thesis by auto
qed

subsection \<open>The passes of the post-processing chain\<close>

lemma render_passes_append:
  "render_passes (xs @ ys) = render_passes xs @ render_passes ys"
  by (simp add: render_passes_def)

lemma render_passes_target_setup:
  "list_all target_setup cs \<Longrightarrow> render_passes cs = []"
  by (induction cs) (auto simp add: render_passes_def target_setup_no_pass)

lemma do_calls_do_calls:
  "do_calls ys (do_calls xs s) = do_calls (xs @ ys) s"
  by (simp add: do_calls_def)

lemma apply_stage_runs:
  assumes "i < length (m_post_processing_stages s)"
    and "i < length (m_post_processing_chain s)"
    and "m_swap_chain s = Some sc"
    and "stage_can_run d s i"
  shows "\<exists>cs. apply_stage d target_fb w h final i tex s =
                Inr (True, (if i \<noteq> final then stage_output_texture i else tex), do_calls cs s) \<and>
              render_passes cs =
                (if i \<noteq> final
                 then [vkCmdBeginRenderPass (output_framebuffer (m_post_processing_stages s ! i)) w h,
                       AddCombinedImageSamplerDescriptorWrite tex,
                       vkCmdBindPipeline (pipeline (m_post_processing_stages s ! i)),
                       vkCmdDraw, vkCmdEndRenderPass]
                 else [vkCmdBeginRenderPass target_fb w h,
                       AddCombinedImageSamplerDescriptorWrite tex,
                       vkCmdBindPipeline (pipeline (m_post_processing_stages s ! i)),
                       vkCmdDraw])"
proof -
  define pps where "pps = m_post_processing_stages s ! i"
  define cs where "cs =
      (if i \<noteq> final
       then [TransitionToLayout (stage_output_texture i) VK_IMAGE_LAYOUT_COLOR_ATTACHMENT_OPTIMAL,
             vkCmdBeginRenderPass (output_framebuffer pps) w h]
       else [vkCmdBeginRenderPass target_fb w h]) @
      [AllocateDescriptorSet (stage_ds i), AddCombinedImageSamplerDescriptorWrite tex] @
      (if UsePushConstants (m_post_processing_chain s ! i)
       then [vkCmdPushConstants (uniforms_size pps)]
       else [ReserveMemory (uniforms_size pps), CommitMemory (uniforms_size pps)]) @
      [vkCmdBindPipeline (pipeline pps), vkCmdDraw] @
      (if i \<noteq> final
       then [vkCmdEndRenderPass,
             TransitionToLayout (stage_output_texture i) VK_IMAGE_LAYOUT_SHADER_READ_ONLY_OPTIMAL]
       else [])"
  have run: "apply_stage d target_fb w h final i tex s =
      Inr (True, (if i \<noteq> final then stage_output_texture i else tex), do_calls cs s)"
    using assms
    by (cases "i = final"; cases "UsePushConstants (m_post_processing_chain s ! i)")
       (simp_all add: apply_stage_def BeginSwapChainRenderPass_def stage_can_run_def
          do_call_def do_calls_def Let_def cs_def pps_def)
  have passes: "render_passes cs =
      (if i \<noteq> final
       then [vkCmdBeginRenderPass (output_framebuffer pps) w h,
             AddCombinedImageSamplerDescriptorWrite tex,
             vkCmdBindPipeline (pipeline pps), vkCmdDraw, vkCmdEndRenderPass]
       else [vkCmdBeginRenderPass target_fb w h,
             AddCombinedImageSamplerDescriptorWrite tex,
             vkCmdBindPipeline (pipeline pps), vkCmdDraw])"
    by (simp add: cs_def render_passes_def)
  from run passes show ?thesis unfolding pps_def by blast
qed

lemma apply_stages_run:
  assumes "n = length (m_post_processing_stages s)"
    and "n \<le> length (m_post_processing_chain s)"
    and "m_swap_chain s = Some sc"
    and "\<forall>i<n. stage_can_run d s i"
    and "k \<le> n"
  shows "\<exists>cs. apply_stages d target_fb w h (n - 1) [k..<n] (claimed_stage_input k) s =
                Inr (do_calls cs s) \<and>
              render_passes cs =
                concat (map (claimed_stage_pass target_fb w h (m_post_processing_stages s))
                          [k..<n])"
  using assms
proof (induction "n - k" arbitrary: k s)
  case 0
  then have "[k..<n] = []" by simp
  moreover have "s = do_calls [] s" by (simp add: do_calls_def)
  ultimately show ?case
    by (metis apply_stages.simps(1) concat.simps(1) list.simps(8) render_passes_def filter.simps(1))
next
  case (Suc m)
  then have kn: "k < n" by simp
  then have upt: "[k..<n] = k # [Suc k..<n]" by (rule upt_conv_Cons)
  from Suc.prems kn have can: "stage_can_run d s k" by simp
  from kn Suc.prems have lens: "k < length (m_post_processing_stages s)"
    "k < length (m_post_processing_chain s)" by simp_all
  from apply_stage_runs [OF lens Suc.prems(3) can, of target_fb w h "n - 1" "claimed_stage_input k"]
  obtain cs1 where
    run1: "apply_stage d target_fb w h (n - 1) k (claimed_stage_input k) s =
             Inr (True, (if k \<noteq> n - 1 then stage_output_texture k else claimed_stage_input k),
                  do_calls cs1 s)"
    and passes1: "render_passes cs1 =
             (if k \<noteq> n - 1
              then [vkCmdBeginRenderPass (output_framebuffer (m_post_processing_stages s ! k)) w h,
                    AddCombinedImageSamplerDescriptorWrite (claimed_stage_input k),
                    vkCmdBindPipeline (pipeline (m_post_processing_stages s ! k)),
                    vkCmdDraw, vkCmdEndRenderPass]
              else [vkCmdBeginRenderPass target_fb w h,
                    AddCombinedImageSamplerDescriptorWrite (claimed_stage_input k),
                    vkCmdBindPipeline (pipeline (m_post_processing_stages s ! k)),
                    vkCmdDraw])"
    by blast
  from passes1 Suc.prems(1)
  have passes1': "render_passes cs1 =
      claimed_stage_pass target_fb w h (m_post_processing_stages s) k"
    by (simp add: claimed_stage_pass_def)
  define s1 where "s1 = do_calls cs1 s"
  have same: "m_post_processing_stages s1 = m_post_processing_stages s"
    "m_post_processing_chain s1 = m_post_processing_chain s"
    "m_swap_chain s1 = m_swap_chain s"
    by (simp_all add: s1_def do_calls_def)
  have can1: "\<forall>i<n. stage_can_run d s1 i"
    using Suc.prems(4) same by (simp add: stage_can_run_def)
  show ?case
  proof (cases "k = n - 1")
    case True
    with kn have "[Suc k..<n] = []" by simp
    with upt run1 passes1' show ?thesis by auto
  next
    case False
    have next_input: "stage_output_texture k = claimed_stage_input (Suc k)"
      by (simp add: claimed_stage_input_def)
    have m: "m = n - Suc k" using Suc.hyps(2) by simp
    from Suc.hyps(1) [OF m, of s1] Suc.prems same can1 kn
    obtain cs2 where
      run2: "apply_stages d target_fb w h (n - 1) [Suc k..<n] (claimed_stage_input (Suc k)) s1 =
               Inr (do_calls cs2 s1)"
      and passes2: "render_passes cs2 =
               concat (map (claimed_stage_pass target_fb w h (m_post_processing_stages s1))
                         [Suc k..<n])"
      by auto
    have "apply_stages d target_fb w h (n - 1) [k..<n] (claimed_stage_input k) s =
            Inr (do_calls (cs1 @ cs2) s)"
      using upt run1 run2 False next_input
      by (simp add: s1_def do_calls_do_calls)
    moreover have "render_passes (cs1 @ cs2) =
        concat (map (claimed_stage_pass target_fb w h (m_post_processing_stages s)) [k..<n])"
      using passes1' passes2 same upt by (simp add: render_passes_append)
    ultimately show ?thesis by blast
  qed
qed

text \<open>
  Claim C6 says that \<^verbatim>\<open>ApplyPostProcessingChain\<close> renders the display into the input
  texture and then runs all N stages. The code does so only when its render targets
  can be made: with a driver that cannot create textures, a display with two stages
  draws the display texture straight into the target framebuffer \<open>10\<close> with the
  display pipeline \<open>20\<close>, and binds the pipeline of neither stage.
\<close>

theorem ApplyPostProcessingChain_without_render_targets:
  "ApplyPostProcessingChain no_render_targets 10 0 0 640 480 display_texture 640 480
     two_stage_display =
   Inr (do_calls
          [Texture_Create post_processing_input_texture 640 480 VK_FORMAT_B8G8R8A8_UNORM,
           vkCmdBeginRenderPass 10 640 480,
           AllocateDescriptorSet display_ds,
           AddCombinedImageSamplerDescriptorWrite display_texture,
           vkCmdBindPipeline 20,
           vkCmdPushConstants 16,
           SetViewportAndScissor 0 0 640 480,
           vkCmdDraw] two_stage_display)"
  by (simp add: ApplyPostProcessingChain_def CheckPostProcessingRenderTargets_def
        check_render_target_def BeginSwapChainRenderPass_def RenderDisplay_texture_def
        no_render_targets_def example_driver_def two_stage_display_def example_display_def
        new_display_def example_swap_chain_def PostProcessingStage_default_def
        VK_NULL_HANDLE_def do_call_def do_calls_def Let_def)

lemma same_chain_refl: "same_chain s s"
  by (simp add: same_chain_def)

lemma same_chain_trans: "same_chain s s1 \<Longrightarrow> same_chain s1 s2 \<Longrightarrow> same_chain s s2"
  by (simp add: same_chain_def)

lemma check_render_target_same_chain:
  "check_render_target d r w h t fb s = Inr (ok, t', fb', s') \<Longrightarrow> same_chain s s'"
  by (auto simp add: check_render_target_def same_chain_def do_call_def Let_def
        split: if_splits option.splits)

lemma check_stage_output_same_chain:
  assumes "check_stage_output d w h i s = Inr (ok, s')"
  shows "same_chain s s'"
proof -
  from assms have i: "i < length (m_post_processing_stages s)"
    by (auto simp add: check_stage_output_def split: if_splits)
  define pps where "pps = m_post_processing_stages s ! i"
  from assms i obtain t fb s1 where
    c: "check_render_target d (stage_output_texture i) w h
          (output_texture pps) (output_framebuffer pps) s = Inr (ok, t, fb, s1)"
    and s': "s' = s1\<lparr>m_post_processing_stages :=
                     (m_post_processing_stages s1)
                       [i := pps\<lparr>output_texture := t, output_framebuffer := fb\<rparr>]\<rparr>"
    by (auto simp add: check_stage_output_def pps_def Let_def split: sum.splits)
  from check_render_target_same_chain [OF c] have k: "same_chain s s1" .
  have stages1: "m_post_processing_stages s1 = m_post_processing_stages s"
    using c by (auto simp add: check_render_target_def do_call_def Let_def
                  split: if_splits option.splits)
  have "map pipeline ((m_post_processing_stages s)
            [i := pps\<lparr>output_texture := t, output_framebuffer := fb\<rparr>])
          = map pipeline (m_post_processing_stages s)"
    using i by (simp add: map_update pps_def list_update_same_conv)
  moreover have "map uniforms_size ((m_post_processing_stages s)
            [i := pps\<lparr>output_texture := t, output_framebuffer := fb\<rparr>])
          = map uniforms_size (m_post_processing_stages s)"
    using i by (simp add: map_update pps_def list_update_same_conv)
  ultimately show ?thesis
    using k stages1 by (simp add: same_chain_def s')
qed

lemma check_stage_outputs_same_chain:
  "check_stage_outputs d w h is s = Inr (ok, s') \<Longrightarrow> same_chain s s'"
proof (induction "is" arbitrary: s)
  case Nil
  then show ?case by (simp add: same_chain_refl)
next
  case (Cons i rest)
  from Cons.prems obtain ok1 s1 where
    c: "check_stage_output d w h i s = Inr (ok1, s1)"
    by (auto split: sum.splits)
  from check_stage_output_same_chain [OF c] have k: "same_chain s s1" .
  show ?case
  proof (cases ok1)
    case True
    with Cons.prems c have "check_stage_outputs d w h rest s1 = Inr (ok, s')" by simp
    from same_chain_trans [OF k Cons.IH [OF this]] show ?thesis .
  next
    case False
    with Cons.prems c have "s' = s1" by simp
    with k show ?thesis by simp
  qed
qed

lemma CheckPostProcessingRenderTargets_same_chain:
  assumes "CheckPostProcessingRenderTargets d w h s = Inr (ok, s')"
  shows "same_chain s s'"
proof -
  from assms obtain ok1 t fb s1 where
    c: "check_render_target d post_processing_input_texture w h
          (m_post_processing_input_texture s) (m_post_processing_input_framebuffer s) s
          = Inr (ok1, t, fb, s1)"
    by (auto simp add: CheckPostProcessingRenderTargets_def split: if_splits sum.splits)
  define s2 where "s2 = s1\<lparr>m_post_processing_input_texture := t,
                          m_post_processing_input_framebuffer := fb\<rparr>"
  from check_render_target_same_chain [OF c] have k: "same_chain s s2"
    by (simp add: same_chain_def s2_def)
  show ?thesis
  proof (cases ok1)
    case True
    with assms c have "check_stage_outputs d w h
        [0..<length (m_post_processing_stages s2) - 1] s2 = Inr (ok, s')"
      by (auto simp add: CheckPostProcessingRenderTargets_def Let_def s2_def split: if_splits)
    from same_chain_trans [OF k check_stage_outputs_same_chain [OF this]] show ?thesis .
  next
    case False
    with assms c have "s' = s2"
      by (auto simp add: CheckPostProcessingRenderTargets_def Let_def s2_def split: if_splits)
    with k show ?thesis by simp
  qed
qed

lemma same_chain_stage_can_run:
  assumes "same_chain s s'" and "i < length (m_post_processing_stages s)"
  shows "stage_can_run d s' i = stage_can_run d s i"
proof -
  from assms(1) have m: "map uniforms_size (m_post_processing_stages s')
        = map uniforms_size (m_post_processing_stages s)"
    and c: "m_post_processing_chain s' = m_post_processing_chain s"
    by (simp_all add: same_chain_def)
  from m have "length (m_post_processing_stages s') = length (m_post_processing_stages s)"
    by (metis length_map)
  with m assms(2) have "uniforms_size (m_post_processing_stages s' ! i)
        = uniforms_size (m_post_processing_stages s ! i)"
    by (metis nth_map)
  with c show ?thesis by (simp add: stage_can_run_def)
qed

lemma same_chain_length:
  "same_chain s s' \<Longrightarrow>
   length (m_post_processing_stages s') = length (m_post_processing_stages s)"
  unfolding same_chain_def by (metis length_map)

lemma ApplyPostProcessingChain_after_check:
  "(CheckPostProcessingRenderTargets d target_width target_height s = Inr (True, checked) \<and>
    m_swap_chain checked = Some sc \<and>
    length (m_post_processing_stages checked) \<le> length (m_post_processing_chain checked) \<and>
    AllocateDescriptorSet_result d display_ds \<noteq> VK_NULL_HANDLE \<and>
    (\<forall>i<length (m_post_processing_stages checked). stage_can_run d checked i) \<longrightarrow>
      (\<exists>s'. ApplyPostProcessingChain d target_fb final_left final_top final_width final_height
               texture target_width target_height s = Inr s' \<and>
             render_passes (new_calls s s') =
               [vkCmdBeginRenderPass (m_post_processing_input_framebuffer checked)
                  target_width target_height,
                AddCombinedImageSamplerDescriptorWrite texture,
                vkCmdBindPipeline (m_display_pipeline checked),
                vkCmdDraw,
                vkCmdEndRenderPass] @
               concat (map (claimed_stage_pass target_fb target_width target_height
                              (m_post_processing_stages checked))
                         [0..<length (m_post_processing_stages checked)]))) \<and>
   (CheckPostProcessingRenderTargets d target_width target_height s = Inr (False, checked) \<and>
    m_swap_chain checked = Some sc \<and>
    AllocateDescriptorSet_result d display_ds \<noteq> VK_NULL_HANDLE \<longrightarrow>
      (\<exists>s'. ApplyPostProcessingChain d target_fb final_left final_top final_width final_height
               texture target_width target_height s = Inr s' \<and>
             render_passes (new_calls s s') =
               [vkCmdBeginRenderPass target_fb target_width target_height,
                AddCombinedImageSamplerDescriptorWrite texture,
                vkCmdBindPipeline (m_display_pipeline checked),
                vkCmdDraw]))"
proof (intro conjI impI)
  assume h: "CheckPostProcessingRenderTargets d target_width target_height s = Inr (True, checked) \<and>
    m_swap_chain checked = Some sc \<and>
    length (m_post_processing_stages checked) \<le> length (m_post_processing_chain checked) \<and>
    AllocateDescriptorSet_result d display_ds \<noteq> VK_NULL_HANDLE \<and>
    (\<forall>i<length (m_post_processing_stages checked). stage_can_run d checked i)"
  from CheckPostProcessingRenderTargets_sets_up [of s d target_width target_height] h
  have "adds_only target_setup s checked" by (simp add: result_state_def)
  then obtain c0 where c0: "calls checked = calls s @ c0" "list_all target_setup c0"
    by (auto simp add: adds_only_iff)
  define pre where "pre =
      [TransitionToLayout post_processing_input_texture VK_IMAGE_LAYOUT_COLOR_ATTACHMENT_OPTIMAL,
       vkCmdBeginRenderPass (m_post_processing_input_framebuffer checked) target_width target_height,
       AllocateDescriptorSet display_ds,
       AddCombinedImageSamplerDescriptorWrite texture,
       vkCmdBindPipeline (m_display_pipeline checked),
       vkCmdPushConstants 16,
       SetViewportAndScissor final_left final_top final_width final_height,
       vkCmdDraw,
       vkCmdEndRenderPass,
       TransitionToLayout post_processing_input_texture VK_IMAGE_LAYOUT_SHADER_READ_ONLY_OPTIMAL]"
  define n where "n = length (m_post_processing_stages checked)"
  define s5 where "s5 = do_calls pre checked"
  have eq: "ApplyPostProcessingChain d target_fb final_left final_top final_width final_height
               texture target_width target_height s =
            apply_stages d target_fb target_width target_height (n - 1) [0..<n]
              (claimed_stage_input 0) s5"
    using h
    by (simp add: ApplyPostProcessingChain_def BeginSwapChainRenderPass_def
          RenderDisplay_texture_def claimed_stage_input_def do_call_def do_calls_def Let_def
          pre_def n_def s5_def)
  have same: "m_post_processing_stages s5 = m_post_processing_stages checked"
    "m_post_processing_chain s5 = m_post_processing_chain checked"
    "m_swap_chain s5 = Some sc"
    using h by (simp_all add: s5_def do_calls_def)
  have can: "\<forall>i<n. stage_can_run d s5 i"
    using h same by (simp add: stage_can_run_def n_def)
  have len: "n = length (m_post_processing_stages s5)" "n \<le> length (m_post_processing_chain s5)"
    using h same by (simp_all add: n_def)
  from apply_stages_run [OF len same(3) can, of 0 target_fb target_width target_height]
  obtain cs where
    run: "apply_stages d target_fb target_width target_height (n - 1) [0..<n]
            (claimed_stage_input 0) s5 = Inr (do_calls cs s5)"
    and passes: "render_passes cs =
            concat (map (claimed_stage_pass target_fb target_width target_height
                           (m_post_processing_stages s5)) [0..<n])"
    by auto
  have "calls (do_calls cs s5) = calls s @ (c0 @ pre @ cs)"
    using c0 by (simp add: s5_def do_calls_def)
  then have "new_calls s (do_calls cs s5) = c0 @ pre @ cs"
    by (rule new_calls_append)
  moreover have "render_passes c0 = []"
    using c0(2) by (rule render_passes_target_setup)
  moreover have "render_passes pre =
      [vkCmdBeginRenderPass (m_post_processing_input_framebuffer checked) target_width target_height,
       AddCombinedImageSamplerDescriptorWrite texture,
       vkCmdBindPipeline (m_display_pipeline checked), vkCmdDraw, vkCmdEndRenderPass]"
    by (simp add: pre_def render_passes_def)
  ultimately have "render_passes (new_calls s (do_calls cs s5)) =
      [vkCmdBeginRenderPass (m_post_processing_input_framebuffer checked) target_width target_height,
       AddCombinedImageSamplerDescriptorWrite texture,
       vkCmdBindPipeline (m_display_pipeline checked), vkCmdDraw, vkCmdEndRenderPass] @
      concat (map (claimed_stage_pass target_fb target_width target_height
                     (m_post_processing_stages checked)) [0..<n])"
    using passes same by (simp add: render_passes_append)
  with eq run
  show "\<exists>s'. ApplyPostProcessingChain d target_fb final_left final_top final_width final_height
               texture target_width target_height s = Inr s' \<and>
             render_passes (new_calls s s') =
               [vkCmdBeginRenderPass (m_post_processing_input_framebuffer checked)
                  target_width target_height,
                AddCombinedImageSamplerDescriptorWrite texture,
                vkCmdBindPipeline (m_display_pipeline checked),
                vkCmdDraw,
                vkCmdEndRenderPass] @
               concat (map (claimed_stage_pass target_fb target_width target_height
                              (m_post_processing_stages checked))
                         [0..<length (m_post_processing_stages checked)])"
    unfolding n_def by simp
next
  assume h: "CheckPostProcessingRenderTargets d target_width target_height s = Inr (False, checked) \<and>
    m_swap_chain checked = Some sc \<and>
    AllocateDescriptorSet_result d display_ds \<noteq> VK_NULL_HANDLE"
  from CheckPostProcessingRenderTargets_sets_up [of s d target_width target_height] h
  have "adds_only target_setup s checked" by (simp add: result_state_def)
  then obtain c0 where c0: "calls checked = calls s @ c0" "list_all target_setup c0"
    by (auto simp add: adds_only_iff)
  define direct where "direct =
      [vkCmdBeginRenderPass target_fb target_width target_height,
       AllocateDescriptorSet display_ds,
       AddCombinedImageSamplerDescriptorWrite texture,
       vkCmdBindPipeline (m_display_pipeline checked),
       vkCmdPushConstants 16,
       SetViewportAndScissor final_left final_top final_width final_height,
       vkCmdDraw]"
  have eq: "ApplyPostProcessingChain d target_fb final_left final_top final_width final_height
               texture target_width target_height s = Inr (do_calls direct checked)"
    using h
    by (simp add: ApplyPostProcessingChain_def BeginSwapChainRenderPass_def
          RenderDisplay_texture_def do_call_def do_calls_def Let_def direct_def)
  have "calls (do_calls direct checked) = calls s @ (c0 @ direct)"
    using c0 by (simp add: do_calls_def)
  then have "new_calls s (do_calls direct checked) = c0 @ direct"
    by (rule new_calls_append)
  moreover have "render_passes c0 = []"
    using c0(2) by (rule render_passes_target_setup)
  moreover have "render_passes direct =
      [vkCmdBeginRenderPass target_fb target_width target_height,
       AddCombinedImageSamplerDescriptorWrite texture,
       vkCmdBindPipeline (m_display_pipeline checked), vkCmdDraw]"
    by (simp add: direct_def render_passes_def)
  ultimately have "render_passes (new_calls s (do_calls direct checked)) =
      [vkCmdBeginRenderPass target_fb target_width target_height,
       AddCombinedImageSamplerDescriptorWrite texture,
       vkCmdBindPipeline (m_display_pipeline checked), vkCmdDraw]"
    by (simp add: render_passes_append)
  with eq
  show "\<exists>s'. ApplyPostProcessingChain d target_fb final_left final_top final_width final_height
               texture target_width target_height s = Inr s' \<and>
             render_passes (new_calls s s') =
               [vkCmdBeginRenderPass target_fb target_width target_height,
                AddCombinedImageSamplerDescriptorWrite texture,
                vkCmdBindPipeline (m_display_pipeline checked),
                vkCmdDraw]"
    by simp
qed

lemma ApplyPostProcessingChain_fallback_no_descriptor_set:
  assumes "CheckPostProcessingRenderTargets d target_width target_height s = Inr (False, checked)"
    and "m_swap_chain checked = Some sc"
    and "AllocateDescriptorSet_result d display_ds = VK_NULL_HANDLE"
  shows "\<exists>s'. ApplyPostProcessingChain d target_fb final_left final_top final_width final_height
               texture target_width target_height s = Inr s' \<and>
             render_passes (new_calls s s') =
               [vkCmdBeginRenderPass target_fb target_width target_height]"
proof -
  from CheckPostProcessingRenderTargets_sets_up [of s d target_width target_height] assms(1)
  have "adds_only target_setup s checked" by (simp add: result_state_def)
  then obtain c0 where c0: "calls checked = calls s @ c0" "list_all target_setup c0"
    by (auto simp add: adds_only_iff)
  define direct where "direct =
      [vkCmdBeginRenderPass target_fb target_width target_height,
       AllocateDescriptorSet display_ds]"
  have eq: "ApplyPostProcessingChain d target_fb final_left final_top final_width final_height
               texture target_width target_height s = Inr (do_calls direct checked)"
    using assms
    by (simp add: ApplyPostProcessingChain_def BeginSwapChainRenderPass_def
          RenderDisplay_texture_def do_call_def do_calls_def Let_def direct_def)
  have "calls (do_calls direct checked) = calls s @ (c0 @ direct)"
    using c0 by (simp add: do_calls_def)
  then have "new_calls s (do_calls direct checked) = c0 @ direct"
    by (rule new_calls_append)
  moreover have "render_passes c0 = []"
    using c0(2) by (rule render_passes_target_setup)
  moreover have "render_passes direct =
      [vkCmdBeginRenderPass target_fb target_width target_height]"
    by (simp add: direct_def render_passes_def)
  ultimately have "render_passes (new_calls s (do_calls direct checked)) =
      [vkCmdBeginRenderPass target_fb target_width target_height]"
    by (simp add: render_passes_append)
  with eq show ?thesis by simp
qed

text \<open>
  Claim C6, amended. Take a display with a swap chain whose chain holds a shader for
  each of its N stages. When \<^verbatim>\<open>CheckPostProcessingRenderTargets\<close> provides the render
  targets, leaving the state \<open>checked\<close> with a framebuffer that is not null for the input
  texture and for every stage but the last, a descriptor set is allocated for the
  display quad, and every one of the N stages can run (a descriptor set is allocated
  for it and its uniforms fit the push-constant buffer or find room in the uniform
  buffer), \<^verbatim>\<open>ApplyPostProcessingChain\<close> returns, and the render passes it recorded are:
  the display texture drawn with the display pipeline into the framebuffer kept for the
  post-processing input texture; then the stages in index order \<open>0..N-1\<close>, stage \<open>0\<close>
  reading the input texture and stage \<open>i + 1\<close> the output texture of stage \<open>i\<close>, every
  stage but the last rendering into its own output framebuffer, and the last stage
  alone rendering into the target framebuffer. When
  \<^verbatim>\<open>CheckPostProcessingRenderTargets\<close> cannot provide the render targets, the function
  returns after one render pass, begun on the target framebuffer, in which the display
  texture is drawn with the display pipeline if a descriptor set is allocated for the
  display quad and nothing is drawn otherwise; no stage runs.
\<close>

theorem ApplyPostProcessingChain_passes:
  "(m_swap_chain s = Some sc \<and>
    length (m_post_processing_stages s) \<le> length (m_post_processing_chain s) \<and>
    CheckPostProcessingRenderTargets d target_width target_height s = Inr (True, checked) \<and>
    m_post_processing_input_framebuffer checked \<noteq> VK_NULL_HANDLE \<and>
    (\<forall>i<length (m_post_processing_stages s) - 1.
       output_framebuffer (m_post_processing_stages checked ! i) \<noteq> VK_NULL_HANDLE) \<and>
    AllocateDescriptorSet_result d display_ds \<noteq> VK_NULL_HANDLE \<and>
    (\<forall>i<length (m_post_processing_stages s). stage_can_run d s i) \<longrightarrow>
      (\<exists>s'. ApplyPostProcessingChain d target_fb final_left final_top final_width final_height
               texture target_width target_height s = Inr s' \<and>
             render_passes (new_calls s s') =
               [vkCmdBeginRenderPass (m_post_processing_input_framebuffer checked)
                  target_width target_height,
                AddCombinedImageSamplerDescriptorWrite texture,
                vkCmdBindPipeline (m_display_pipeline s),
                vkCmdDraw,
                vkCmdEndRenderPass] @
               concat (map (claimed_stage_pass target_fb target_width target_height
                              (m_post_processing_stages checked))
                         [0..<length (m_post_processing_stages s)]))) \<and>
   (m_swap_chain s = Some sc \<and>
    CheckPostProcessingRenderTargets d target_width target_height s = Inr (False, checked) \<longrightarrow>
      (\<exists>s'. ApplyPostProcessingChain d target_fb final_left final_top final_width final_height
               texture target_width target_height s = Inr s' \<and>
             render_passes (new_calls s s') =
               vkCmdBeginRenderPass target_fb target_width target_height #
               (if AllocateDescriptorSet_result d display_ds \<noteq> VK_NULL_HANDLE
                then [AddCombinedImageSamplerDescriptorWrite texture,
                      vkCmdBindPipeline (m_display_pipeline s),
                      vkCmdDraw]
                else [])))"
proof (intro conjI impI)
  assume h: "m_swap_chain s = Some sc \<and>
    length (m_post_processing_stages s) \<le> length (m_post_processing_chain s) \<and>
    CheckPostProcessingRenderTargets d target_width target_height s = Inr (True, checked) \<and>
    m_post_processing_input_framebuffer checked \<noteq> VK_NULL_HANDLE \<and>
    (\<forall>i<length (m_post_processing_stages s) - 1.
       output_framebuffer (m_post_processing_stages checked ! i) \<noteq> VK_NULL_HANDLE) \<and>
    AllocateDescriptorSet_result d display_ds \<noteq> VK_NULL_HANDLE \<and>
    (\<forall>i<length (m_post_processing_stages s). stage_can_run d s i)"
  then have c: "CheckPostProcessingRenderTargets d target_width target_height s
      = Inr (True, checked)" by simp
  from CheckPostProcessingRenderTargets_same_chain [OF c] have k: "same_chain s checked" .
  from k have len: "length (m_post_processing_stages checked)
      = length (m_post_processing_stages s)"
    by (rule same_chain_length)
  from k h have f: "m_swap_chain checked = Some sc"
    "m_post_processing_chain checked = m_post_processing_chain s"
    "m_display_pipeline checked = m_display_pipeline s"
    by (simp_all add: same_chain_def)
  have can: "\<forall>i<length (m_post_processing_stages checked). stage_can_run d checked i"
    using h len same_chain_stage_can_run [OF k] by simp
  from ApplyPostProcessingChain_after_check [of d target_width target_height s checked sc
      target_fb final_left final_top final_width final_height texture]
    c f h len can
  show "\<exists>s'. ApplyPostProcessingChain d target_fb final_left final_top final_width final_height
               texture target_width target_height s = Inr s' \<and>
             render_passes (new_calls s s') =
               [vkCmdBeginRenderPass (m_post_processing_input_framebuffer checked)
                  target_width target_height,
                AddCombinedImageSamplerDescriptorWrite texture,
                vkCmdBindPipeline (m_display_pipeline s),
                vkCmdDraw,
                vkCmdEndRenderPass] @
               concat (map (claimed_stage_pass target_fb target_width target_height
                              (m_post_processing_stages checked))
                         [0..<length (m_post_processing_stages s)])"
    by simp
next
  assume h: "m_swap_chain s = Some sc \<and>
    CheckPostProcessingRenderTargets d target_width target_height s = Inr (False, checked)"
  then have c: "CheckPostProcessingRenderTargets d target_width target_height s
      = Inr (False, checked)" by simp
  from CheckPostProcessingRenderTargets_same_chain [OF c] have k: "same_chain s checked" .
  from k h have f: "m_swap_chain checked = Some sc"
    "m_display_pipeline checked = m_display_pipeline s"
    by (simp_all add: same_chain_def)
  show "\<exists>s'. ApplyPostProcessingChain d target_fb final_left final_top final_width final_height
               texture target_width target_height s = Inr s' \<and>
             render_passes (new_calls s s') =
               vkCmdBeginRenderPass target_fb target_width target_height #
               (if AllocateDescriptorSet_result d display_ds \<noteq> VK_NULL_HANDLE
                then [AddCombinedImageSamplerDescriptorWrite texture,
                      vkCmdBindPipeline (m_display_pipeline s),
                      vkCmdDraw]
                else [])"
  proof (cases "AllocateDescriptorSet_result d display_ds = VK_NULL_HANDLE")
    case True
    from ApplyPostProcessingChain_fallback_no_descriptor_set [OF c f(1) True,
        of target_fb final_left final_top final_width final_height texture] True
    show ?thesis by simp
  next
    case False
    from ApplyPostProcessingChain_after_check [of d target_width target_height s checked sc
        target_fb final_left final_top final_width final_height texture]
      c f False
    show ?thesis by simp
  qed
qed

theorem ApplyPostProcessingChain_passes_witness:
  "m_swap_chain two_stage_display = Some example_swap_chain \<and>
   CheckPostProcessingRenderTargets example_driver 640 480 two_stage_display =
     Inr (True, two_stage_display_ready) \<and>
   CheckPostProcessingRenderTargets no_render_targets 640 480 two_stage_display =
     Inr (False, two_stage_display_unready) \<and>
   CheckPostProcessingRenderTargets no_descriptor_sets 640 480 two_stage_display =
     Inr (False, two_stage_display_unready) \<and>
   m_post_processing_input_framebuffer two_stage_display_ready = 40 \<and>
   output_framebuffer (m_post_processing_stages two_stage_display_ready ! 0) = 50 \<and>
   stage_can_run example_driver two_stage_display 0 \<and>
   stage_can_run example_driver two_stage_display 1 \<and>
   (\<exists>s'. ApplyPostProcessingChain example_driver 10 0 0 640 480 display_texture 640 480
            two_stage_display = Inr s' \<and>
          render_passes (new_calls two_stage_display s') =
            [vkCmdBeginRenderPass 40 640 480,
             AddCombinedImageSamplerDescriptorWrite display_texture,
             vkCmdBindPipeline 20, vkCmdDraw, vkCmdEndRenderPass,
             vkCmdBeginRenderPass 50 640 480,
             AddCombinedImageSamplerDescriptorWrite post_processing_input_texture,
             vkCmdBindPipeline 90, vkCmdDraw, vkCmdEndRenderPass,
             vkCmdBeginRenderPass 10 640 480,
             AddCombinedImageSamplerDescriptorWrite (stage_output_texture 0),
             vkCmdBindPipeline 91, vkCmdDraw]) \<and>
   (\<exists>s'. ApplyPostProcessingChain no_render_targets 10 0 0 640 480 display_texture 640 480
            two_stage_display = Inr s' \<and>
          render_passes (new_calls two_stage_display s') =
            [vkCmdBeginRenderPass 10 640 480,
             AddCombinedImageSamplerDescriptorWrite display_texture,
             vkCmdBindPipeline 20, vkCmdDraw]) \<and>
   (\<exists>s'. ApplyPostProcessingChain no_descriptor_sets 10 0 0 640 480 display_texture 640 480
            two_stage_display = Inr s' \<and>
          render_passes (new_calls two_stage_display s') = [vkCmdBeginRenderPass 10 640 480])"
proof -
  have ready: "CheckPostProcessingRenderTargets example_driver 640 480 two_stage_display =
      Inr (True, two_stage_display_ready)"
    by (simp add: CheckPostProcessingRenderTargets_def check_stage_output_def
          check_render_target_def two_stage_display_ready_def two_stage_display_def
          example_driver_def example_display_def new_display_def example_swap_chain_def
          PostProcessingStage_default_def VK_NULL_HANDLE_def do_call_def do_calls_def Let_def)
  have unready: "CheckPostProcessingRenderTargets no_render_targets 640 480 two_stage_display =
      Inr (False, two_stage_display_unready)"
    by (simp add: CheckPostProcessingRenderTargets_def check_render_target_def
          two_stage_display_unready_def two_stage_display_def no_render_targets_def
          example_driver_def example_display_def new_display_def example_swap_chain_def
          PostProcessingStage_default_def VK_NULL_HANDLE_def do_call_def do_calls_def Let_def)
  have unready': "CheckPostProcessingRenderTargets no_descriptor_sets 640 480 two_stage_display =
      Inr (False, two_stage_display_unready)"
    by (simp add: CheckPostProcessingRenderTargets_def check_render_target_def
          two_stage_display_unready_def two_stage_display_def no_descriptor_sets_def
          no_render_targets_def
          example_driver_def example_display_def new_display_def example_swap_chain_def
          PostProcessingStage_default_def VK_NULL_HANDLE_def do_call_def do_calls_def Let_def)
  have fields: "m_swap_chain two_stage_display = Some example_swap_chain"
    "m_post_processing_stages two_stage_display =
       [PostProcessingStage_default\<lparr>pipeline := 90, uniforms_size := 16\<rparr>,
        PostProcessingStage_default\<lparr>pipeline := 91, uniforms_size := 256\<rparr>]"
    "m_post_processing_chain two_stage_display = [scanlines, bloom]"
    "m_display_pipeline two_stage_display = 20"
    "m_post_processing_stages two_stage_display_ready =
       [\<lparr>pipeline = 90, output_framebuffer = 50,
         output_texture = \<lparr>tex_width = 640, tex_height = 480\<rparr>, uniforms_size = 16\<rparr>,
        PostProcessingStage_default\<lparr>pipeline := 91, uniforms_size := 256\<rparr>]"
    "m_post_processing_input_framebuffer two_stage_display_ready = 40"
    by (simp_all add: two_stage_display_ready_def two_stage_display_def example_display_def
          new_display_def do_call_def do_calls_def)
  have ds: "AllocateDescriptorSet_result example_driver display_ds \<noteq> VK_NULL_HANDLE"
    "AllocateDescriptorSet_result no_render_targets display_ds \<noteq> VK_NULL_HANDLE"
    "AllocateDescriptorSet_result no_descriptor_sets display_ds = VK_NULL_HANDLE"
    by (simp_all add: example_driver_def no_render_targets_def no_descriptor_sets_def
          VK_NULL_HANDLE_def)
  have can01: "stage_can_run example_driver two_stage_display 0"
    "stage_can_run example_driver two_stage_display 1"
    by (simp_all add: fields stage_can_run_def example_driver_def scanlines_def bloom_def
          PostProcessingStage_default_def VK_NULL_HANDLE_def)
  have can: "\<forall>i<length (m_post_processing_stages two_stage_display).
      stage_can_run example_driver two_stage_display i"
    using can01 by (simp add: fields less_Suc_eq)
  have fbs: "m_post_processing_input_framebuffer two_stage_display_ready \<noteq> VK_NULL_HANDLE"
    "\<forall>i<length (m_post_processing_stages two_stage_display) - 1.
       output_framebuffer (m_post_processing_stages two_stage_display_ready ! i)
         \<noteq> VK_NULL_HANDLE"
    by (simp_all add: fields VK_NULL_HANDLE_def)
  have passes: "concat (map (claimed_stage_pass 10 640 480
                   (m_post_processing_stages two_stage_display_ready))
                   [0..<length (m_post_processing_stages two_stage_display)]) =
      [vkCmdBeginRenderPass 50 640 480,
       AddCombinedImageSamplerDescriptorWrite post_processing_input_texture,
       vkCmdBindPipeline 90, vkCmdDraw, vkCmdEndRenderPass,
       vkCmdBeginRenderPass 10 640 480,
       AddCombinedImageSamplerDescriptorWrite (stage_output_texture 0),
       vkCmdBindPipeline 91, vkCmdDraw]"
    by (simp add: fields claimed_stage_pass_def claimed_stage_input_def
          PostProcessingStage_default_def)
  have len: "length (m_post_processing_stages two_stage_display)
      \<le> length (m_post_processing_chain two_stage_display)"
    by (simp add: fields)
  have fb0: "output_framebuffer (m_post_processing_stages two_stage_display_ready ! 0) = 50"
    by (simp add: fields)
  from ApplyPostProcessingChain_passes [where d = example_driver and target_width = 640
        and target_height = 480 and s = two_stage_display and checked = two_stage_display_ready
        and sc = example_swap_chain and target_fb = 10 and final_left = 0 and final_top = 0
        and final_width = 640 and final_height = 480 and texture = display_texture]
    ready fields(1) len ds(1) can fbs
  have full: "\<exists>s'. ApplyPostProcessingChain example_driver 10 0 0 640 480 display_texture
            640 480 two_stage_display = Inr s' \<and>
          render_passes (new_calls two_stage_display s') =
            [vkCmdBeginRenderPass 40 640 480,
             AddCombinedImageSamplerDescriptorWrite display_texture,
             vkCmdBindPipeline 20, vkCmdDraw, vkCmdEndRenderPass] @
            concat (map (claimed_stage_pass 10 640 480
                   (m_post_processing_stages two_stage_display_ready))
                   [0..<length (m_post_processing_stages two_stage_display)])"
    by (simp add: fields(4,6))
  from ApplyPostProcessingChain_passes [where d = no_render_targets and target_width = 640
        and target_height = 480 and s = two_stage_display
        and checked = two_stage_display_unready
        and sc = example_swap_chain and target_fb = 10 and final_left = 0 and final_top = 0
        and final_width = 640 and final_height = 480 and texture = display_texture]
    unready fields(1) ds(2)
  have direct: "\<exists>s'. ApplyPostProcessingChain no_render_targets 10 0 0 640 480
            display_texture 640 480 two_stage_display = Inr s' \<and>
          render_passes (new_calls two_stage_display s') =
            [vkCmdBeginRenderPass 10 640 480,
             AddCombinedImageSamplerDescriptorWrite display_texture,
             vkCmdBindPipeline 20, vkCmdDraw]"
    by (simp add: fields(4))
  from ApplyPostProcessingChain_passes [where d = no_descriptor_sets and target_width = 640
        and target_height = 480 and s = two_stage_display
        and checked = two_stage_display_unready
        and sc = example_swap_chain and target_fb = 10 and final_left = 0 and final_top = 0
        and final_width = 640 and final_height = 480 and texture = display_texture]
    unready' fields(1) ds(3)
  have bare: "\<exists>s'. ApplyPostProcessingChain no_descriptor_sets 10 0 0 640 480
            display_texture 640 480 two_stage_display = Inr s' \<and>
          render_passes (new_calls two_stage_display s') = [vkCmdBeginRenderPass 10 640 480]"
    by simp
  note full' = full [unfolded passes append.simps]
  show ?thesis
    by (intro conjI)
       (fact fields(1) ready unready unready' fields(6) fb0 can01 full' direct bare)+
qed

subsection \<open>Setting the post-processing chain\<close>

lemma build_stage_failed:
  "build_stage d i only s = (False, only', s') \<Longrightarrow>
   m_post_processing_stages s' = [] \<and> m_post_processing_chain s' = []"
  by (auto simp add: build_stage_def Let_def clear_post_processing_def clear_stages_def
        do_call_def do_calls_def split: if_splits)

lemma build_stages_failed:
  "build_stages d is only s = (False, only', s') \<Longrightarrow>
   m_post_processing_stages s' = [] \<and> m_post_processing_chain s' = []"
proof (induction "is" arbitrary: only s)
  case Nil
  then show ?case by simp
next
  case (Cons i rest)
  obtain built o1 s1 where b: "build_stage d i only s = (built, o1, s1)"
    by (cases "build_stage d i only s") auto
  show ?case
  proof (cases built)
    case True
    with Cons.prems b have "build_stages d rest o1 s1 = (False, only', s')" by simp
    then show ?thesis by (rule Cons.IH)
  next
    case False
    with Cons.prems b have "build_stage d i only s = (False, only', s')" by simp
    then show ?thesis by (rule build_stage_failed)
  qed
qed

text \<open>
  Claim C5 says that whenever \<^verbatim>\<open>SetPostProcessingChain\<close> returns false, a parse
  failure included, the stage list and the chain are left cleared. When the parser
  rejects the configuration the function returns at once: on a display that still holds
  one stage, the call returns false and the stage is still there.
\<close>

theorem SetPostProcessingChain_parse_failure_keeps_stages:
  "fst (SetPostProcessingChain rejecting_parser ''crt'' stale_display) = False \<and>
   m_post_processing_stages (snd (SetPostProcessingChain rejecting_parser ''crt'' stale_display))
     = [PostProcessingStage_default\<lparr>pipeline := 90\<rparr>]"
  by (simp add: SetPostProcessingChain_def rejecting_parser_def stale_display_def
        example_driver_def Let_def do_call_def)

text \<open>
  Claim C5, amended. \<^verbatim>\<open>SetPostProcessingChain\<close> called with an empty configuration
  clears the stage list and the chain and returns true. Whenever it returns false after
  the parser has accepted the configuration (a shader or a pipeline did not compile, the
  uniform buffer could not be allocated), the stage list and the chain are both left
  cleared. When the parser rejects the configuration it returns false, the stage list
  is as it was before the call and the chain is as the parser left it.
\<close>

theorem SetPostProcessingChain_failure:
  "(config = [] \<longrightarrow>
      fst (SetPostProcessingChain d config s) = True \<and>
      m_post_processing_stages (snd (SetPostProcessingChain d config s)) = [] \<and>
      m_post_processing_chain (snd (SetPostProcessingChain d config s)) = []) \<and>
   (config \<noteq> [] \<and> fst (CreateFromString_result d) \<and>
    fst (SetPostProcessingChain d config s) = False \<longrightarrow>
      m_post_processing_stages (snd (SetPostProcessingChain d config s)) = [] \<and>
      m_post_processing_chain (snd (SetPostProcessingChain d config s)) = []) \<and>
   (config \<noteq> [] \<and> \<not> fst (CreateFromString_result d) \<longrightarrow>
      fst (SetPostProcessingChain d config s) = False \<and>
      m_post_processing_stages (snd (SetPostProcessingChain d config s))
        = m_post_processing_stages s \<and>
      m_post_processing_chain (snd (SetPostProcessingChain d config s))
        = snd (CreateFromString_result d))"
proof -
  obtain parsed chain where p: "CreateFromString_result d = (parsed, chain)"
    by (cases "CreateFromString_result d") auto
  have empty: "config = [] \<Longrightarrow> SetPostProcessingChain d config s =
      (True, clear_post_processing (do_call (ExecuteCommandBuffer True) s))"
    by (simp add: SetPostProcessingChain_def Let_def)
  have unparsed: "config \<noteq> [] \<Longrightarrow> \<not> parsed \<Longrightarrow> SetPostProcessingChain d config s =
      (False, (do_call (PostProcessingChain_CreateFromString config)
                 (do_call (ExecuteCommandBuffer True) s))\<lparr>m_post_processing_chain := chain\<rparr>)"
    by (simp add: SetPostProcessingChain_def Let_def p)
  have failed: "m_post_processing_stages (snd (SetPostProcessingChain d config s)) = [] \<and>
      m_post_processing_chain (snd (SetPostProcessingChain d config s)) = []"
    if c: "config \<noteq> []" and ok: parsed and f: "fst (SetPostProcessingChain d config s) = False"
  proof -
    define s2 where "s2 = clear_stages ((do_call (PostProcessingChain_CreateFromString config)
        (do_call (ExecuteCommandBuffer True) s))\<lparr>m_post_processing_chain := chain\<rparr>)"
    obtain built only s3 where
      b: "build_stages d [0..<length (m_post_processing_chain s2)] True s2 = (built, only, s3)"
      by (cases "build_stages d [0..<length (m_post_processing_chain s2)] True s2") auto
    have eq: "SetPostProcessingChain d config s =
        (if \<not> built then (False, s3)
         else if \<not> only \<and> m_post_processing_ubo_size s3 < UBO_SIZE
         then (let s4 = do_call (StreamBuffer_Create UBO_SIZE) s3
               in if \<not> StreamBuffer_Create_result d then (False, clear_post_processing s4)
                  else (True, do_call Timer_Reset (s4\<lparr>m_post_processing_ubo_size := UBO_SIZE\<rparr>)))
         else (True, do_call Timer_Reset s3))"
      using c ok b by (simp add: SetPostProcessingChain_def Let_def p s2_def)
    show ?thesis
    proof (cases built)
      case False
      with b have "build_stages d [0..<length (m_post_processing_chain s2)] True s2
                     = (False, only, s3)" by simp
      from build_stages_failed [OF this] eq False show ?thesis by simp
    next
      case True
      with eq f show ?thesis
        by (auto simp add: Let_def clear_post_processing_def clear_stages_def do_call_def
              do_calls_def split: if_splits)
    qed
  qed
  show ?thesis
    using empty unparsed failed p
    by (auto simp add: clear_post_processing_def clear_stages_def do_call_def do_calls_def)
qed

theorem SetPostProcessingChain_failure_witness:
  "fst (CreateFromString_result failing_compiler) \<and>
   \<not> fst (CreateFromString_result rejecting_parser) \<and>
   SetPostProcessingChain example_driver [] stale_display =
     (True, clear_post_processing (do_call (ExecuteCommandBuffer True) stale_display)) \<and>
   fst (SetPostProcessingChain failing_compiler ''crt'' stale_display) = False \<and>
   m_post_processing_stages (snd (SetPostProcessingChain failing_compiler ''crt'' stale_display))
     = [] \<and>
   m_post_processing_chain (snd (SetPostProcessingChain failing_compiler ''crt'' stale_display))
     = [] \<and>
   fst (SetPostProcessingChain rejecting_parser ''crt'' stale_display) = False \<and>
   m_post_processing_stages (snd (SetPostProcessingChain rejecting_parser ''crt'' stale_display))
     = m_post_processing_stages stale_display"
proof -
  have h1: "fst (CreateFromString_result failing_compiler)"
    by (simp add: failing_compiler_def)
  have h2: "\<not> fst (CreateFromString_result rejecting_parser)"
    by (simp add: rejecting_parser_def)
  have h3: "''crt'' \<noteq> []" by simp
  have h4: "fst (SetPostProcessingChain failing_compiler ''crt'' stale_display) = False"
    by (simp add: SetPostProcessingChain_def build_stage_def failing_compiler_def
          example_driver_def stale_display_def scanlines_def bloom_def
          PostProcessingStage_default_def clear_post_processing_def clear_stages_def
          PostProcessingStage_destructor_def VK_NULL_HANDLE_def do_call_def do_calls_def Let_def)
  have e: "SetPostProcessingChain example_driver [] stale_display =
      (True, clear_post_processing (do_call (ExecuteCommandBuffer True) stale_display))"
    by (simp add: SetPostProcessingChain_def Let_def)
  show ?thesis
    using h1 h2 h3 h4 e
      SetPostProcessingChain_failure [of "[]" example_driver stale_display]
      SetPostProcessingChain_failure [of "''crt''" failing_compiler stale_display]
      SetPostProcessingChain_failure [of "''crt''" rejecting_parser stale_display]
    by simp
qed

subsection \<open>Retrying the acquire\<close>

text \<open>
  Claim C1 says that after an acquire that failed with \<^verbatim>\<open>VK_SUBOPTIMAL_KHR\<close> or
  \<^verbatim>\<open>VK_ERROR_OUT_OF_DATE_KHR\<close> the swap chain is resized and the acquire is retried.
  \<^verbatim>\<open>ResizeRenderWindow\<close> panics when the swap chain cannot be resized: then \<^verbatim>\<open>Render\<close>
  stops after one acquire and the resize attempt, and there is no second acquire.
\<close>

theorem Render_resize_failure_panics:
  "Render resize_fails example_driver False example_display =
     Inl (Panic ''Failed to resize swap chain'',
          do_calls [WaitForPresentComplete, AcquireNextImage, WaitForGPUIdle,
                    ResizeSwapChain 0 0] example_display)"
  by (simp add: Render_def ResizeRenderWindow_def resize_fails_def example_display_def
        new_display_def Let_def do_call_def do_calls_def)

text \<open>
  Claim C1, amended. In \<^verbatim>\<open>Render\<close>, with a swap chain and without \<^verbatim>\<open>skip_present\<close>:
  \<^item> when the first acquire fails with \<^verbatim>\<open>VK_SUBOPTIMAL_KHR\<close> or
    \<^verbatim>\<open>VK_ERROR_OUT_OF_DATE_KHR\<close> and the swap chain can be resized, the calls are: wait
    for the present, acquire, wait for the GPU, resize to \<open>0, 0\<close>, acquire, and no
    further acquire whatever follows;
  \<^item> when the swap chain cannot be resized, \<^verbatim>\<open>Render\<close> panics after the resize attempt;
  \<^item> when the first acquire fails with \<^verbatim>\<open>VK_ERROR_SURFACE_LOST_KHR\<close> and the surface
    can be recreated, the calls are: wait for the present, acquire, recreate the surface,
    acquire, and no further acquire;
  \<^item> in both retrying cases, if the second result is neither \<^verbatim>\<open>VK_SUCCESS\<close> nor
    \<^verbatim>\<open>VK_SUBOPTIMAL_KHR\<close>, the only call that follows executes the command buffer, and
    \<^verbatim>\<open>Render\<close> returns false: no frame is submitted for presentation.
\<close>

theorem Render_acquire_retry:
  assumes "\<not> skip_present" and "m_swap_chain s = Some sc"
  shows
    "(AcquireNextImage_first a \<in> {VK_SUBOPTIMAL_KHR, VK_ERROR_OUT_OF_DATE_KHR} \<and>
      ResizeSwapChain_result a \<noteq> None \<longrightarrow>
        (\<exists>rest. new_calls s (final_state (Render a d skip_present s)) =
                  [WaitForPresentComplete, AcquireNextImage, WaitForGPUIdle,
                   ResizeSwapChain 0 0, AcquireNextImage] @ rest \<and>
                AcquireNextImage \<notin> set rest \<and>
                (AcquireNextImage_retry a \<notin> {VK_SUCCESS, VK_SUBOPTIMAL_KHR} \<longrightarrow>
                   rest = [ExecuteCommandBuffer False] \<and>
                   (\<exists>s'. Render a d skip_present s = Inr (False, s'))))) \<and>
     (AcquireNextImage_first a \<in> {VK_SUBOPTIMAL_KHR, VK_ERROR_OUT_OF_DATE_KHR} \<and>
      ResizeSwapChain_result a = None \<longrightarrow>
        (\<exists>s'. Render a d skip_present s = Inl (Panic ''Failed to resize swap chain'', s') \<and>
              new_calls s s' = [WaitForPresentComplete, AcquireNextImage, WaitForGPUIdle,
                                ResizeSwapChain 0 0])) \<and>
     (AcquireNextImage_first a = VK_ERROR_SURFACE_LOST_KHR \<and>
      RecreateSurface_result a \<noteq> None \<longrightarrow>
        (\<exists>rest. new_calls s (final_state (Render a d skip_present s)) =
                  [WaitForPresentComplete, AcquireNextImage,
                   RecreateSurface (m_window_info s), AcquireNextImage] @ rest \<and>
                AcquireNextImage \<notin> set rest \<and>
                (AcquireNextImage_retry a \<notin> {VK_SUCCESS, VK_SUBOPTIMAL_KHR} \<longrightarrow>
                   rest = [ExecuteCommandBuffer False] \<and>
                   (\<exists>s'. Render a d skip_present s = Inr (False, s')))))"
proof (intro conjI impI)
  assume h: "AcquireNextImage_first a \<in> {VK_SUBOPTIMAL_KHR, VK_ERROR_OUT_OF_DATE_KHR} \<and>
      ResizeSwapChain_result a \<noteq> None"
  then obtain sc' where sc': "ResizeSwapChain_result a = Some sc'" by auto
  define s2 where "s2 = do_call AcquireNextImage
      ((do_calls [WaitForPresentComplete, AcquireNextImage, WaitForGPUIdle,
                  ResizeSwapChain 0 0] s)
         \<lparr>m_swap_chain := Some sc', m_window_info := GetWindowInfo sc'\<rparr>)"
  have eq: "Render a d skip_present s = Render_acquired d (AcquireNextImage_retry a) s2"
    using assms h sc'
    by (auto simp add: Render_def ResizeRenderWindow_def Let_def do_call_def do_calls_def s2_def)
  have c2: "calls s2 = calls s @ [WaitForPresentComplete, AcquireNextImage, WaitForGPUIdle,
                   ResizeSwapChain 0 0, AcquireNextImage]"
    by (simp add: s2_def do_call_def do_calls_def)
  from Render_acquired_calls [of d "AcquireNextImage_retry a" s2]
  obtain rest where rest:
    "calls (final_state (Render_acquired d (AcquireNextImage_retry a) s2)) = calls s2 @ rest"
    "AcquireNextImage \<notin> set rest"
    "AcquireNextImage_retry a \<notin> {VK_SUCCESS, VK_SUBOPTIMAL_KHR} \<longrightarrow>
       rest = [ExecuteCommandBuffer False] \<and>
       Render_acquired d (AcquireNextImage_retry a) s2 =
         Inr (False, do_call (ExecuteCommandBuffer False) s2)"
    by blast
  from rest(1) c2 have "new_calls s (final_state (Render a d skip_present s)) =
      [WaitForPresentComplete, AcquireNextImage, WaitForGPUIdle,
       ResizeSwapChain 0 0, AcquireNextImage] @ rest"
    unfolding eq by (intro new_calls_append) simp
  with rest(2,3) eq
  show "\<exists>rest. new_calls s (final_state (Render a d skip_present s)) =
                  [WaitForPresentComplete, AcquireNextImage, WaitForGPUIdle,
                   ResizeSwapChain 0 0, AcquireNextImage] @ rest \<and>
                AcquireNextImage \<notin> set rest \<and>
                (AcquireNextImage_retry a \<notin> {VK_SUCCESS, VK_SUBOPTIMAL_KHR} \<longrightarrow>
                   rest = [ExecuteCommandBuffer False] \<and>
                   (\<exists>s'. Render a d skip_present s = Inr (False, s')))"
    by auto
next
  assume h: "AcquireNextImage_first a \<in> {VK_SUBOPTIMAL_KHR, VK_ERROR_OUT_OF_DATE_KHR} \<and>
      ResizeSwapChain_result a = None"
  with assms
  show "\<exists>s'. Render a d skip_present s = Inl (Panic ''Failed to resize swap chain'', s') \<and>
              new_calls s s' = [WaitForPresentComplete, AcquireNextImage, WaitForGPUIdle,
                                ResizeSwapChain 0 0]"
    by (auto simp add: Render_def ResizeRenderWindow_def Let_def do_call_def do_calls_def
          new_calls_def)
next
  assume h: "AcquireNextImage_first a = VK_ERROR_SURFACE_LOST_KHR \<and>
      RecreateSurface_result a \<noteq> None"
  then obtain sc' where sc': "RecreateSurface_result a = Some sc'" by auto
  define s2 where "s2 = do_call AcquireNextImage
      ((do_calls [WaitForPresentComplete, AcquireNextImage,
                  RecreateSurface (m_window_info s)] s)\<lparr>m_swap_chain := Some sc'\<rparr>)"
  have eq: "Render a d skip_present s = Render_acquired d (AcquireNextImage_retry a) s2"
    using assms h sc'
    by (auto simp add: Render_def Let_def do_call_def do_calls_def s2_def)
  have c2: "calls s2 = calls s @ [WaitForPresentComplete, AcquireNextImage,
                   RecreateSurface (m_window_info s), AcquireNextImage]"
    by (simp add: s2_def do_call_def do_calls_def)
  from Render_acquired_calls [of d "AcquireNextImage_retry a" s2]
  obtain rest where rest:
    "calls (final_state (Render_acquired d (AcquireNextImage_retry a) s2)) = calls s2 @ rest"
    "AcquireNextImage \<notin> set rest"
    "AcquireNextImage_retry a \<notin> {VK_SUCCESS, VK_SUBOPTIMAL_KHR} \<longrightarrow>
       rest = [ExecuteCommandBuffer False] \<and>
       Render_acquired d (AcquireNextImage_retry a) s2 =
         Inr (False, do_call (ExecuteCommandBuffer False) s2)"
    by blast
  from rest(1) c2 have "new_calls s (final_state (Render a d skip_present s)) =
      [WaitForPresentComplete, AcquireNextImage,
       RecreateSurface (m_window_info s), AcquireNextImage] @ rest"
    unfolding eq by (intro new_calls_append) simp
  with rest(2,3) eq
  show "\<exists>rest. new_calls s (final_state (Render a d skip_present s)) =
                  [WaitForPresentComplete, AcquireNextImage,
                   RecreateSurface (m_window_info s), AcquireNextImage] @ rest \<and>
                AcquireNextImage \<notin> set rest \<and>
                (AcquireNextImage_retry a \<notin> {VK_SUCCESS, VK_SUBOPTIMAL_KHR} \<longrightarrow>
                   rest = [ExecuteCommandBuffer False] \<and>
                   (\<exists>s'. Render a d skip_present s = Inr (False, s')))"
    by auto
qed

theorem Render_acquire_retry_witness:
  "m_swap_chain example_display = Some example_swap_chain \<and>
   new_calls example_display
     (final_state (Render out_of_date_twice example_driver False example_display)) =
     [WaitForPresentComplete, AcquireNextImage, WaitForGPUIdle, ResizeSwapChain 0 0,
      AcquireNextImage, ExecuteCommandBuffer False] \<and>
   (\<exists>s'. Render out_of_date_twice example_driver False example_display = Inr (False, s')) \<and>
   (\<exists>s'. Render resize_fails example_driver False example_display =
            Inl (Panic ''Failed to resize swap chain'', s')) \<and>
   new_calls example_display
     (final_state (Render surface_lost_then_device_lost example_driver False example_display)) =
     [WaitForPresentComplete, AcquireNextImage, RecreateSurface example_window,
      AcquireNextImage, ExecuteCommandBuffer False]"
proof -
  have h1: "\<not> False" by simp
  have h2: "m_swap_chain example_display = Some example_swap_chain"
    by (simp add: example_display_def)
  have w: "m_window_info example_display = example_window"
    by (simp add: example_display_def)
  have a1: "AcquireNextImage_first out_of_date_twice = VK_ERROR_OUT_OF_DATE_KHR"
    "AcquireNextImage_retry out_of_date_twice = VK_ERROR_OUT_OF_DATE_KHR"
    "ResizeSwapChain_result out_of_date_twice = Some example_swap_chain"
    by (simp_all add: out_of_date_twice_def)
  have a2: "AcquireNextImage_first resize_fails = VK_ERROR_OUT_OF_DATE_KHR"
    "ResizeSwapChain_result resize_fails = None"
    by (simp_all add: resize_fails_def)
  have a3: "AcquireNextImage_first surface_lost_then_device_lost = VK_ERROR_SURFACE_LOST_KHR"
    "AcquireNextImage_retry surface_lost_then_device_lost = VK_ERROR_DEVICE_LOST"
    "RecreateSurface_result surface_lost_then_device_lost = Some example_swap_chain"
    by (simp_all add: surface_lost_then_device_lost_def)
  show ?thesis
    using h2 w a1 a2 a3
      Render_acquire_retry [OF h1 h2, of out_of_date_twice example_driver]
      Render_acquire_retry [OF h1 h2, of resize_fails example_driver]
      Render_acquire_retry [OF h1 h2, of surface_lost_then_device_lost example_driver]
    by auto
qed

end
